theory Spec2Isabelle
  imports Complex_Main "HOL-Library.Sublist"
begin

section \<open>Strings\<close>

text \<open>
  JavaScript strings are modelled as \<^typ>\<open>string\<close> over the ASCII range, where one
  \<^typ>\<open>char\<close> is one UTF-16 code unit: \<open>length\<close> is \<open>s.length\<close> and
  \<open>of_char\<close> is \<open>charCodeAt\<close>. \<open>String.prototype.toLowerCase\<close> maps the
  letters \<open>A\<close>..\<open>Z\<close> to \<open>a\<close>..\<open>z\<close> and leaves every other code unit alone.
\<close>

definition isUpperChar :: "char \<Rightarrow> bool" where
  "isUpperChar c = (65 \<le> (of_char c :: nat) \<and> (of_char c :: nat) \<le> 90)"

definition toLowerCaseChar :: "char \<Rightarrow> char" where
  "toLowerCaseChar c = (if isUpperChar c then char_of ((of_char c :: nat) + 32) else c)"

definition toLowerCase :: "string \<Rightarrow> string" where
  "toLowerCase s = map toLowerCaseChar s"

text \<open>\<open>s.includes(sub)\<close>: \<open>sub\<close> occurs in \<open>s\<close> as a contiguous substring.\<close>

fun str_includes :: "string \<Rightarrow> string \<Rightarrow> bool" where
  "str_includes [] sub = (sub = [])"
| "str_includes (c # cs) sub = (prefix sub (c # cs) \<or> str_includes cs sub)"

text \<open>
  White space as \<open>String.prototype.trim\<close> and the regular expression class \<open>\s\<close> see it
  in ASCII: tab, line feed, vertical tab, form feed, carriage return and space.
\<close>

definition isWhitespace :: "char \<Rightarrow> bool" where
  "isWhitespace c = ((of_char c :: nat) \<in> {9, 10, 11, 12, 13, 32})"

definition no_whitespace :: "string \<Rightarrow> bool" where
  "no_whitespace s = list_all (\<lambda>c. \<not> isWhitespace c) s"

definition no_upper :: "string \<Rightarrow> bool" where
  "no_upper s = list_all (\<lambda>c. \<not> isUpperChar c) s"

definition isBase36Char :: "char \<Rightarrow> bool" where
  "isBase36Char c =
     ((48 \<le> (of_char c :: nat) \<and> (of_char c :: nat) \<le> 57) \<or>
      (97 \<le> (of_char c :: nat) \<and> (of_char c :: nat) \<le> 122))"


section \<open>Cache keys (\<open>utils/cache\<close>, \<open>CacheManager\<close>)\<close>

text \<open>
  \<open>hashString\<close> keeps its accumulator in a JavaScript number that the bit operations
  \<open>hash << 5\<close> and \<open>hash & hash\<close> bring back into the signed 32-bit range.
  \<open>toInt32\<close> is that conversion on an exact integer.
\<close>

definition toInt32 :: "int \<Rightarrow> int" where
  "toInt32 x = (x + 2147483648) mod 4294967296 - 2147483648"

definition hashStep :: "int \<Rightarrow> char \<Rightarrow> int" where
  "hashStep hash c = toInt32 ((toInt32 (toInt32 hash * 32) - hash) + of_char c)"

text \<open>\<open>Number.prototype.toString(36)\<close> on a non-negative integer.\<close>

definition digit36 :: "nat \<Rightarrow> char" where
  "digit36 d = (if d < 10 then char_of (48 + d) else char_of (87 + d))"

fun toString36 :: "nat \<Rightarrow> string" where
  "toString36 n =
     (if n < 36 then [digit36 n] else toString36 (n div 36) @ [digit36 (n mod 36)])"

declare toString36.simps [simp del]

definition hashString :: "string \<Rightarrow> string" where
  "hashString str = toString36 (nat \<bar>foldl hashStep 0 str\<bar>)"

text \<open>
  \<open>generateKey\<close> takes any value as \<open>input\<close>: a string is used as it is or hashed, anything
  else goes through \<open>JSON.stringify\<close>, whose text \<open>OtherInput\<close> carries.
\<close>

datatype key_input = StringInput string | OtherInput string

definition generateKey :: "string \<Rightarrow> string \<Rightarrow> key_input \<Rightarrow> string" where
  "generateKey service operation input =
     (let inputKey =
        (case input of
           StringInput s \<Rightarrow> if length s > 100 then hashString s else s
         | OtherInput json \<Rightarrow> json)
      in toLowerCase (service @ '':'' @ operation @ '':'' @ inputKey))"


section \<open>Classification rule tables\<close>

text \<open>\<open>OfficialUpdatesService.classifyUpdateType\<close>.\<close>

definition classifyUpdateType :: "string \<Rightarrow> string" where
  "classifyUpdateType title =
     (let lowerTitle = toLowerCase title in
      if str_includes lowerTitle ''evacuation'' then ''evacuation''
      else if str_includes lowerTitle ''warning'' \<or> str_includes lowerTitle ''alert''
        then ''alert''
      else if str_includes lowerTitle ''advisory'' then ''advisory''
      else if str_includes lowerTitle ''update'' \<or> str_includes lowerTitle ''status''
        then ''update''
      else if str_includes lowerTitle ''relief'' \<or> str_includes lowerTitle ''aid''
        then ''relief''
      else ''general'')"

text \<open>\<open>OfficialUpdatesService.calculatePriority\<close>.\<close>

definition calculatePriority :: "string \<Rightarrow> int" where
  "calculatePriority title =
     (let lowerTitle = toLowerCase title in
      if str_includes lowerTitle ''urgent'' \<or> str_includes lowerTitle ''emergency'' then 5
      else if str_includes lowerTitle ''warning'' \<or> str_includes lowerTitle ''evacuation''
        then 4
      else if str_includes lowerTitle ''alert'' \<or> str_includes lowerTitle ''watch'' then 3
      else if str_includes lowerTitle ''advisory'' then 2
      else 1)"

text \<open>
  A regular expression that is an alternation of plain words, with the flag \<open>i\<close>, tested
  on a string: some alternative occurs in the string, letter case ignored. The
  expressions of \<open>SocialMediaService\<close> are made afresh at every call, so the flag \<open>g\<close>
  starts each test at index 0.
\<close>

definition regex_test_ci :: "string list \<Rightarrow> string \<Rightarrow> bool" where
  "regex_test_ci alternatives s = list_ex (str_includes (toLowerCase s)) alternatives"

text \<open>\<open>SocialMediaService.classifyPost\<close>.\<close>

definition classifyPost :: "string \<Rightarrow> string" where
  "classifyPost content =
     (let helpPattern = [''help'', ''assistance'', ''need'', ''trapped'', ''stranded''];
          offerPattern = [''offering'', ''volunteer'', ''donate'', ''shelter'', ''supplies''];
          infoPattern = [''update'', ''report'', ''status'', ''confirmed'', ''official'']
      in if regex_test_ci helpPattern content then ''help_request''
         else if regex_test_ci offerPattern content then ''offer_help''
         else if regex_test_ci infoPattern content then ''information''
         else ''general'')"

text \<open>
  The specification's reading of both classifiers: an ordered table of rules, each a list
  of keywords with a label; the first rule with a keyword in the text gives the label.
\<close>

fun first_match :: "(string list \<times> string) list \<Rightarrow> string \<Rightarrow> string \<Rightarrow> string" where
  "first_match [] dflt text = dflt"
| "first_match ((keywords, label) # rules) dflt text =
     (if list_ex (str_includes text) keywords then label else first_match rules dflt text)"

definition updateType_rules :: "(string list \<times> string) list" where
  "updateType_rules =
     [([''evacuation''], ''evacuation''),
      ([''warning'', ''alert''], ''alert''),
      ([''advisory''], ''advisory''),
      ([''update'', ''status''], ''update''),
      ([''relief'', ''aid''], ''relief'')]"

definition classification_rules :: "(string list \<times> string) list" where
  "classification_rules =
     [([''help'', ''assistance'', ''need'', ''trapped'', ''stranded''], ''help_request''),
      ([''offering'', ''volunteer'', ''donate'', ''shelter'', ''supplies''], ''offer_help''),
      ([''update'', ''report'', ''status'', ''confirmed'', ''official''], ''information'')]"


section \<open>Dates and the time window\<close>

text \<open>
  A \<open>Date\<close> is its time value in milliseconds, or invalid (time value \<open>NaN\<close>); \<open>null\<close>
  is \<open>None\<close>. \<open>new Date(v)\<close> on a number is a valid date when \<open>v\<close> is within
  8640000000000000 ms of the epoch and invalid otherwise, also when \<open>v\<close> is \<open>NaN\<close>. The
  reading of the clock \<open>Date.now()\<close> is the argument \<open>now\<close>.
\<close>

datatype js_date = InvalidDate | ValidDate int

definition newDate :: "int \<Rightarrow> js_date" where
  "newDate v = (if \<bar>v\<bar> \<le> 8640000000000000 then ValidDate v else InvalidDate)"

text \<open>\<open>a >= b\<close> on two dates compares the time values; with \<open>NaN\<close> it is false.\<close>

fun date_ge :: "js_date \<Rightarrow> js_date \<Rightarrow> bool" where
  "date_ge (ValidDate a) (ValidDate b) = (a \<ge> b)"
| "date_ge _ _ = False"

text \<open>
  \<open>isWithinTimeWindow(date, timeWindow)\<close>. The window is the number the routes get from
  \<open>parseInt\<close>: a whole number of hours of any size and sign, or \<open>NaN\<close> (\<open>None\<close>), with
  which the cutoff is an invalid date.
\<close>

definition isWithinTimeWindow :: "int \<Rightarrow> js_date option \<Rightarrow> int option \<Rightarrow> bool" where
  "isWithinTimeWindow now date timeWindow =
     (case date of
        None \<Rightarrow> True
      | Some d \<Rightarrow>
          (let cutoff = (case timeWindow of
                           None \<Rightarrow> InvalidDate
                         | Some hours \<Rightarrow> newDate (now - hours * 60 * 60 * 1000))
           in date_ge d cutoff))"


section \<open>The disaster context\<close>

text \<open>
  The fields of a disaster the services read. \<open>tags\<close> and \<open>location_name\<close> may be
  missing (\<open>None\<close>); an empty array of tags is truthy, an empty location name is not.
\<close>

record disaster =
  disaster_id :: string
  tags :: "string list option"
  location_name :: "string option"

text \<open>\<open>s.split(',')\<close> and \<open>s.trim()\<close>.\<close>

fun split_on :: "char \<Rightarrow> string \<Rightarrow> string list" where
  "split_on sep [] = [[]]"
| "split_on sep (c # cs) =
     (if c = sep then [] # split_on sep cs
      else (case split_on sep cs of [] \<Rightarrow> [[c]] | part # parts \<Rightarrow> (c # part) # parts))"

definition trim :: "string \<Rightarrow> string" where
  "trim s = rev (dropWhile isWhitespace (rev (dropWhile isWhitespace s)))"


section \<open>Sorting with a comparator\<close>

text \<open>
  \<open>Array.prototype.sort(compare)\<close> is a stable sort: \<open>a\<close> comes before \<open>b\<close> when
  \<open>compare(a, b) < 0\<close>, and elements that compare as equal keep their order. For a
  comparator that orders the elements consistently there is one such arrangement, the one
  insertion from the right computes. Scores are exact decimal numbers here
  (\<^typ>\<open>real\<close>), where the source adds IEEE doubles.
\<close>

fun insert_by :: "('a \<Rightarrow> 'a \<Rightarrow> real) \<Rightarrow> 'a \<Rightarrow> 'a list \<Rightarrow> 'a list" where
  "insert_by compare x [] = [x]"
| "insert_by compare x (y # ys) =
     (if compare x y \<le> 0 then x # y # ys else y # insert_by compare x ys)"

definition array_sort :: "('a \<Rightarrow> 'a \<Rightarrow> real) \<Rightarrow> 'a list \<Rightarrow> 'a list" where
  "array_sort compare xs = foldr (insert_by compare) xs []"

datatype js_error = Error string

text \<open>
  \<open>xs.slice(0, end)\<close>: the first \<open>end\<close> elements, or with a negative \<open>end\<close> all but the
  last \<open>-end\<close>. \<open>end\<close> is the integer the call makes of its argument (0 for \<open>NaN\<close>).
\<close>

definition slice_to :: "int \<Rightarrow> 'a list \<Rightarrow> 'a list" where
  "slice_to end xs =
     (if end < 0 then take (nat (int (length xs) + end)) xs else take (nat end) xs)"


section \<open>Social media posts (\<open>services/socialMedia.js\<close>)\<close>

text \<open>
  A post as the provider adapters build it, and as \<open>processPost\<close> enriches it: the
  adapters set no \<open>isUrgent\<close>, \<open>classification\<close> or \<open>relevanceScore\<close> (\<open>None\<close>: the
  property is absent). \<open>createdAt\<close> is the time value of the ISO string. The fields
  \<open>keywords\<close> and \<open>processedAt\<close>, which nothing below reads, are left out.
\<close>

record post_metrics =
  likes :: "int option"
  retweets :: "int option"
  reposts :: "int option"
  replies :: "int option"

record post =
  post_id :: string
  post_content :: string
  post_author :: string
  post_createdAt :: int
  post_platform :: string
  post_metrics :: "post_metrics option"
  post_verified :: bool
  post_isUrgent :: "bool option"
  post_classification :: "string option"
  post_relevanceScore :: "real option"

text \<open>\<open>n || 0\<close> on a count that may be missing.\<close>

definition or_zero :: "int option \<Rightarrow> int" where
  "or_zero n = (case n of None \<Rightarrow> 0 | Some k \<Rightarrow> k)"

definition urgentKeywords :: "string list" where
  "urgentKeywords =
     [''urgent'', ''sos'', ''emergency'', ''help'', ''trapped'', ''stranded'',
      ''life threatening'', ''critical'', ''immediate'', ''now'', ''asap'']"

text \<open>
  \<open>detectUrgency\<close> returns \<open>true\<close> or \<open>null\<close>; \<open>null\<close> is falsy and counts as 0 in the
  comparator of \<open>fetchReports\<close>, so it is \<open>False\<close> here.
\<close>

definition detectUrgency :: "string \<Rightarrow> bool" where
  "detectUrgency content = regex_test_ci urgentKeywords content"

text \<open>
  \<open>calculateRelevance\<close> updates one variable \<open>score\<close> in five steps; each step is a
  function of the score so far.
\<close>

definition post_tag_bonus :: "post \<Rightarrow> disaster \<Rightarrow> real \<Rightarrow> real" where
  "post_tag_bonus post disaster score =
     (case tags disaster of
        None \<Rightarrow> score
      | Some ts \<Rightarrow>
          fold (\<lambda>tag score.
                  if str_includes (toLowerCase (post_content post)) (toLowerCase tag)
                  then score + 0.2 else score) ts score)"

definition post_location_bonus :: "post \<Rightarrow> disaster \<Rightarrow> real \<Rightarrow> real" where
  "post_location_bonus post disaster score =
     (case location_name disaster of
        None \<Rightarrow> score
      | Some loc \<Rightarrow>
          if loc = [] then score
          else (let locationParts = split_on CHR '','' (toLowerCase loc)
                in fold (\<lambda>part score.
                           if str_includes (toLowerCase (post_content post)) (trim part)
                           then score + 0.2 else score) locationParts score))"

definition post_urgency_bonus :: "post \<Rightarrow> real \<Rightarrow> real" where
  "post_urgency_bonus post score =
     (if post_isUrgent post = Some True then score + 0.3 else score)"

definition post_engagement_bonus :: "post \<Rightarrow> real \<Rightarrow> real" where
  "post_engagement_bonus post score =
     (case post_metrics post of
        None \<Rightarrow> score
      | Some m \<Rightarrow>
          (let totalEngagement = or_zero (likes m) + or_zero (retweets m);
               score = (if totalEngagement > 10 then score + 0.1 else score)
           in if totalEngagement > 50 then score + 0.1 else score))"

definition post_verified_bonus :: "post \<Rightarrow> real \<Rightarrow> real" where
  "post_verified_bonus post score = (if post_verified post then score + 0.1 else score)"

definition calculateRelevance :: "post \<Rightarrow> disaster \<Rightarrow> real" where
  "calculateRelevance post disaster =
     (let score = 0.5;
          score = post_tag_bonus post disaster score;
          score = post_location_bonus post disaster score;
          score = post_urgency_bonus post score;
          score = post_engagement_bonus post score;
          score = post_verified_bonus post score
      in min score 1.0)"

text \<open>
  \<open>processPost\<close> copies the post, sets the new fields on the copy, and computes the score
  from the post it was given, not from the copy.
\<close>

definition processPost :: "post \<Rightarrow> disaster \<Rightarrow> post" where
  "processPost post disaster =
     post\<lparr>post_isUrgent := Some (detectUrgency (post_content post)),
          post_classification := Some (classifyPost (post_content post)),
          post_relevanceScore := Some (calculateRelevance post disaster)\<rparr>"

text \<open>
  The comparator of \<open>fetchReports\<close>: urgent posts first, then the more recent
  \<open>createdAt\<close>. A boolean in a subtraction is 1 or 0.
\<close>

definition bool_num :: "bool option \<Rightarrow> real" where
  "bool_num b = (if b = Some True then 1 else 0)"

definition compare_posts :: "post \<Rightarrow> post \<Rightarrow> real" where
  "compare_posts a b =
     (if post_isUrgent a \<noteq> post_isUrgent b
      then bool_num (post_isUrgent b) - bool_num (post_isUrgent a)
      else real_of_int (post_createdAt b - post_createdAt a))"

text \<open>
  What \<open>fetchReports\<close> computes on a cache miss. The outcome of the request to Twitter
  (a list of posts, or the error the request throws), the posts Bluesky returned
  (\<open>fetchBlueskyPosts\<close> catches its own errors and returns the empty list) and the mock
  generator, whose random draws make it an input (a function of the count it is asked
  for), are the fields of \<open>providers\<close>. \<open>maxResults\<close> is the integer \<open>parseInt\<close> gives.
\<close>

record providers =
  twitter_posts :: "js_error + post list"
  bluesky_posts :: "post list"
  generateMockPosts :: "int \<Rightarrow> post list"

definition fetchReports_try :: "providers \<Rightarrow> string \<Rightarrow> disaster \<Rightarrow> int \<Rightarrow> js_error + post list" where
  "fetchReports_try env provider disaster maxResults =
     (case (if provider = ''twitter'' then twitter_posts env
            else if provider = ''bluesky'' then Inr (bluesky_posts env)
            else Inr (generateMockPosts env maxResults)) of
        Inl error \<Rightarrow> Inl error
      | Inr posts \<Rightarrow>
          (let processedPosts = map (\<lambda>post. processPost post disaster) posts;
               processedPosts = array_sort compare_posts processedPosts
           in Inr (slice_to maxResults processedPosts)))"

definition fetchReports_compute :: "providers \<Rightarrow> string \<Rightarrow> disaster \<Rightarrow> int \<Rightarrow> post list" where
  "fetchReports_compute env provider disaster maxResults =
     (case fetchReports_try env provider disaster maxResults of
        Inr posts \<Rightarrow> posts
      | Inl error \<Rightarrow> generateMockPosts env (min maxResults 10))"

text \<open>\<open>buildSearchQuery\<close>: at most ten terms joined by \<open>" OR "\<close>.\<close>

fun join_with :: "string \<Rightarrow> string list \<Rightarrow> string" where
  "join_with sep [] = []"
| "join_with sep [x] = x"
| "join_with sep (x # y # ys) = x @ sep @ join_with sep (y # ys)"

definition buildSearchQuery :: "disaster \<Rightarrow> string" where
  "buildSearchQuery disaster =
     (let terms = (case tags disaster of None \<Rightarrow> [] | Some ts \<Rightarrow> ts);
          terms = terms @
            (case location_name disaster of
               None \<Rightarrow> []
             | Some loc \<Rightarrow> if loc = [] then [] else map trim (split_on CHR '','' loc));
          terms = terms @ [''emergency'', ''disaster'', ''help'']
      in join_with '' OR '' (take 10 terms))"


section \<open>Official updates (\<open>OfficialUpdatesService\<close>)\<close>

text \<open>
  An update as the source adapters build it; \<open>rankUpdatesByRelevance\<close> adds
  \<open>relevanceScore\<close>. \<open>publishedAt\<close> is the time value of the ISO string, \<open>None\<close> when the
  adapter could not read a date.
\<close>

record update =
  title :: string
  content :: string
  url :: "string option"
  publishedAt :: "int option"
  source :: string
  updateType :: string
  priorityLevel :: int
  relevanceScore :: "real option"

definition disasterKeywords :: "string list" where
  "disasterKeywords =
     [''emergency'', ''disaster'', ''flood'', ''flooding'', ''hurricane'', ''tornado'',
      ''earthquake'', ''wildfire'', ''fire'', ''storm'', ''evacuation'', ''warning'',
      ''watch'', ''alert'', ''advisory'', ''relief'', ''response'', ''recovery'',
      ''preparedness'', ''safety'']"

definition filterRelevantUpdates :: "update list \<Rightarrow> disaster \<Rightarrow> update list" where
  "filterRelevantUpdates updates disaster =
     filter (\<lambda>update.
       let text = toLowerCase (title update @ '' '' @ content update);
           hasKeywords =
             list_ex (\<lambda>keyword. str_includes text (toLowerCase keyword)) disasterKeywords;
           hasTags =
             (case tags disaster of
                None \<Rightarrow> False
              | Some ts \<Rightarrow> list_ex (\<lambda>tag. str_includes text (toLowerCase tag)) ts);
           hasLocation =
             (case location_name disaster of
                None \<Rightarrow> False
              | Some loc \<Rightarrow> loc \<noteq> [] \<and> str_includes text (toLowerCase loc))
       in hasKeywords \<or> hasTags \<or> hasLocation) updates"

text \<open>
  The score \<open>rankUpdatesByRelevance\<close> gives one update, again step by step. \<open>now\<close> is
  the reading of the clock; the records are scored in one synchronous pass, for which
  one reading stands. Without a date the age is \<open>NaN\<close> and no recency bonus is added.
\<close>

definition update_tag_bonus :: "string \<Rightarrow> disaster \<Rightarrow> real \<Rightarrow> real" where
  "update_tag_bonus text disaster score =
     (case tags disaster of
        None \<Rightarrow> score
      | Some ts \<Rightarrow>
          fold (\<lambda>tag score.
                  if str_includes text (toLowerCase tag)
                  then score + 0.3 else score) ts score)"

definition update_location_bonus :: "string \<Rightarrow> disaster \<Rightarrow> real \<Rightarrow> real" where
  "update_location_bonus text disaster score =
     (case location_name disaster of
        None \<Rightarrow> score
      | Some loc \<Rightarrow>
          if loc \<noteq> [] \<and> str_includes text (toLowerCase loc)
          then score + 0.4 else score)"

definition update_priority_bonus :: "update \<Rightarrow> real \<Rightarrow> real" where
  "update_priority_bonus update score =
     score +
       real_of_int (if priorityLevel update = 0 then 1 else priorityLevel update) * 0.1"

definition update_recency_bonus :: "int \<Rightarrow> update \<Rightarrow> real \<Rightarrow> real" where
  "update_recency_bonus now update score =
     (case publishedAt update of
        None \<Rightarrow> score
      | Some t \<Rightarrow>
          (let age = now - t;
               ageHours = real_of_int age / (1000 * 60 * 60)
           in if ageHours < 24 then score + 0.2
              else if ageHours < 48 then score + 0.1
              else score))"

definition update_relevance :: "int \<Rightarrow> update \<Rightarrow> disaster \<Rightarrow> real" where
  "update_relevance now update disaster =
     (let score = 0;
          text = toLowerCase (title update @ '' '' @ content update);
          score = update_tag_bonus text disaster score;
          score = update_location_bonus text disaster score;
          score = update_priority_bonus update score;
          score = update_recency_bonus now update score
      in score)"

text \<open>
  The comparator \<open>b.relevanceScore - a.relevanceScore\<close>; a missing score makes the
  difference \<open>NaN\<close>, which the sort takes as 0.
\<close>

definition compare_updates :: "update \<Rightarrow> update \<Rightarrow> real" where
  "compare_updates a b =
     (case (relevanceScore b, relevanceScore a) of
        (Some sb, Some sa) \<Rightarrow> sb - sa
      | _ \<Rightarrow> 0)"

definition rankUpdatesByRelevance :: "int \<Rightarrow> update list \<Rightarrow> disaster \<Rightarrow> update list" where
  "rankUpdatesByRelevance now updates disaster =
     array_sort compare_updates
       (map (\<lambda>update. update\<lparr>relevanceScore := Some (update_relevance now update disaster)\<rparr>)
          updates)"

text \<open>The registry \<open>this.sources\<close>: four agencies, all enabled.\<close>

record source_config =
  source_name :: string
  newsUrl :: string
  enabled :: bool

definition sources_registry :: "string \<Rightarrow> source_config option" where
  "sources_registry =
     [''fema'' \<mapsto> \<lparr>source_name = ''FEMA'',
                  newsUrl = ''https://www.fema.gov/about/news-multimedia/news-stories'',
                  enabled = True\<rparr>,
      ''redcross'' \<mapsto> \<lparr>source_name = ''American Red Cross'',
                  newsUrl = ''https://www.redcross.org/about-us/news-and-events/news'',
                  enabled = True\<rparr>,
      ''cdc'' \<mapsto> \<lparr>source_name = ''CDC Emergency Preparedness'',
                  newsUrl = ''https://www.cdc.gov/cpr/whatsnew/whatsnew.htm'',
                  enabled = True\<rparr>,
      ''nws'' \<mapsto> \<lparr>source_name = ''National Weather Service'',
                  newsUrl = ''https://www.weather.gov/news/'',
                  enabled = True\<rparr>]"

text \<open>
  \<open>fetchFromSource\<close> throws for a source that is not configured or not enabled, and
  otherwise hands over to the adapter of the source. What that adapter returns or throws
  for a time window (an HTTP request and the scraping of its answer) is the input
  \<open>adapter\<close>. \<open>maxResults\<close> and \<open>timeWindow\<close> are the numbers \<open>parseInt\<close> gives the
  routes: an integer, and an integer or \<open>NaN\<close> (\<open>None\<close>).
\<close>

definition fetchFromSource ::
  "(string \<Rightarrow> int option \<Rightarrow> js_error + update list) \<Rightarrow> string \<Rightarrow> int option
     \<Rightarrow> js_error + update list" where
  "fetchFromSource adapter sourceKey timeWindow =
     (case sources_registry sourceKey of
        None \<Rightarrow> Inl (Error (''Source '' @ sourceKey @ '' not available''))
      | Some config \<Rightarrow>
          if \<not> enabled config then Inl (Error (''Source '' @ sourceKey @ '' not available''))
          else adapter sourceKey timeWindow)"

text \<open>
  \<open>s.replace(pattern, replacement)\<close> with a string pattern replaces the first occurrence
  of the pattern. In the replacement \<open>$$\<close> stands for a dollar sign, \<open>$&\<close> for the
  matched text, \<open>$`\<close> for the text before the match and \<open>$'\<close> for the text after it;
  any other \<open>$\<close> is kept as it is (a string pattern has no groups).
\<close>

fun get_substitution :: "string \<Rightarrow> string \<Rightarrow> string \<Rightarrow> string \<Rightarrow> string" where
  "get_substitution matched before after (c # d # rest) =
     (if c = CHR ''$'' \<and> d = CHR ''$'' then
        CHR ''$'' # get_substitution matched before after rest
      else if c = CHR ''$'' \<and> d = CHR ''&'' then
        matched @ get_substitution matched before after rest
      else if c = CHR ''$'' \<and> d = CHR 0x60 then
        before @ get_substitution matched before after rest
      else if c = CHR ''$'' \<and> d = CHR 0x27 then
        after @ get_substitution matched before after rest
      else c # get_substitution matched before after (d # rest))"
| "get_substitution matched before after rest = rest"

fun replace_from :: "string \<Rightarrow> string \<Rightarrow> string \<Rightarrow> string \<Rightarrow> string" where
  "replace_from pattern replacement before [] =
     (if pattern = [] then before @ get_substitution [] before [] replacement else before)"
| "replace_from pattern replacement before (c # cs) =
     (if prefix pattern (c # cs)
      then before @
           get_substitution pattern before (drop (length pattern) (c # cs)) replacement @
           drop (length pattern) (c # cs)
      else replace_from pattern replacement (before @ [c]) cs)"

definition replace_first :: "string \<Rightarrow> string \<Rightarrow> string \<Rightarrow> string" where
  "replace_first pattern replacement s = replace_from pattern replacement [] s"

fun decimal :: "nat \<Rightarrow> string" where
  "decimal n = (if n < 10 then [digit36 n] else decimal (n div 10) @ [digit36 (n mod 10)])"

declare decimal.simps [simp del]

text \<open>
  \<open>generateMockUpdates\<close>: one record per template. \<open>random_age index\<close> is the age in
  milliseconds that \<open>Math.random() * 24 * 60 * 60 * 1000\<close> gives the record.
\<close>

definition mockTemplates :: "(string \<times> string \<times> string \<times> int) list" where
  "mockTemplates =
     [(''${source} Issues ${type} for ${location} Due to ${tag}'',
       ''Official ${type} has been issued for ${location} area due to ongoing ${tag}. Residents should take immediate precautions.'',
       ''alert'', 4),
      (''Relief Operations Continue in ${location} After ${tag}'',
       ''Emergency response teams continue relief operations in ${location} following the ${tag}. Multiple shelters are operational.'',
       ''update'', 2),
      (''Evacuation Routes Established for ${location} ${tag} Response'',
       ''Local authorities have established evacuation routes for residents in ${location} affected by the ${tag}.'',
       ''evacuation'', 5)]"

definition generateMockUpdates :: "int \<Rightarrow> (nat \<Rightarrow> int) \<Rightarrow> disaster \<Rightarrow> update list" where
  "generateMockUpdates now random_age disaster =
     (let mock_sources =
            [''FEMA'', ''Red Cross'', ''Emergency Management'', ''National Weather Service''];
          types = [''Warning'', ''Advisory'', ''Alert'', ''Update'']
      in map (\<lambda>(index, (template_title, template_content, template_type, template_priority)).
            let mock_source = mock_sources ! (index mod length mock_sources);
                type = types ! (index mod length types);
                location = (case location_name disaster of
                              None \<Rightarrow> ''Affected Area''
                            | Some loc \<Rightarrow> if loc = [] then ''Affected Area'' else loc);
                tag = (case tags disaster of
                         Some (t # ts) \<Rightarrow> if t = [] then ''emergency'' else t
                       | _ \<Rightarrow> ''emergency'')
            in \<lparr>title = replace_first ''${tag}'' tag
                         (replace_first ''${location}'' location
                           (replace_first ''${type}'' type
                             (replace_first ''${source}'' mock_source template_title))),
                content = replace_first ''${tag}'' tag
                           (replace_first ''${location}'' location
                             (replace_first ''${type}'' (toLowerCase type) template_content)),
                url = Some (''https://example.com/update/'' @ decimal index),
                publishedAt = Some (now - random_age index),
                source = mock_source,
                updateType = template_type,
                priorityLevel = template_priority,
                relevanceScore = Some 0.8\<rparr>)
           (enumerate 0 mockTemplates))"

text \<open>
  What \<open>fetchUpdates\<close> computes on a cache miss. \<open>collectUpdates\<close> is the fan-out to
  the sources and the merge of what they return; each source has its own \<open>try\<close>, and a
  source that throws contributes the empty list. The outer \<open>catch\<close>, which returns the mock
  updates, takes over only when the statements after the fetches throw, which they do
  not on strings and numbers.
\<close>

definition collectUpdates ::
  "(string \<Rightarrow> int option \<Rightarrow> js_error + update list) \<Rightarrow> string list \<Rightarrow> int option
     \<Rightarrow> update list" where
  "collectUpdates adapter sources timeWindow =
     (let results =
            map (\<lambda>sourceKey.
                   case fetchFromSource adapter sourceKey timeWindow of
                     Inr updates \<Rightarrow> map (\<lambda>update. update\<lparr>source := sourceKey\<rparr>) updates
                   | Inl error \<Rightarrow> []) sources
      in concat results)"

definition fetchUpdates_try ::
  "(string \<Rightarrow> int option \<Rightarrow> js_error + update list) \<Rightarrow> int \<Rightarrow> disaster \<Rightarrow> string list
     \<Rightarrow> int \<Rightarrow> int option \<Rightarrow> js_error + update list" where
  "fetchUpdates_try adapter now disaster sources maxResults timeWindow =
     (let allUpdates = collectUpdates adapter sources timeWindow;
          relevantUpdates = filterRelevantUpdates allUpdates disaster;
          rankedUpdates = rankUpdatesByRelevance now relevantUpdates disaster
      in Inr (slice_to maxResults rankedUpdates))"

definition fetchUpdates_compute ::
  "(string \<Rightarrow> int option \<Rightarrow> js_error + update list) \<Rightarrow> int \<Rightarrow> (nat \<Rightarrow> int) \<Rightarrow> disaster
     \<Rightarrow> string list \<Rightarrow> int \<Rightarrow> int option \<Rightarrow> update list" where
  "fetchUpdates_compute adapter now random_age disaster sources maxResults timeWindow =
     (case fetchUpdates_try adapter now disaster sources maxResults timeWindow of
        Inr updates \<Rightarrow> updates
      | Inl error \<Rightarrow> generateMockUpdates now random_age disaster)"


section \<open>The cache (\<open>CacheManager\<close>)\<close>

text \<open>
  The table \<open>cache\<close> of the store is a map from keys to rows. The store answers every
  query while \<open>reachable\<close>; when it is not, every query comes back with an error (one
  other than \<open>PGRST116\<close>, "no rows"), which \<open>get\<close>, \<open>set\<close> and \<open>delete\<close> catch and log.
  Times are in milliseconds, \<open>ttl\<close> and \<open>defaultTTL\<close> in whole seconds. A value goes to
  the store as JSON: \<open>json_roundtrip v\<close> is what the column \<open>value\<close> gives back for a
  value \<open>v\<close> that was sent, \<open>v\<close> itself for JSON data and \<open>null\<close> (\<open>None\<close>) for what
  \<open>JSON.stringify\<close> makes \<open>null\<close> of, such as \<open>NaN\<close>.
\<close>

record 'v cache_row =
  row_value :: "'v option"
  expires_at :: int
  row_source :: "string option"
  hit_count :: nat

record 'v cache =
  defaultTTL :: int
  rows :: "string \<Rightarrow> 'v cache_row option"
  reachable :: bool
  json_roundtrip :: "'v \<Rightarrow> 'v option"

text \<open>
  \<open>ttl || this.defaultTTL\<close>: a \<open>ttl\<close> that is falsy (\<open>null\<close>, left out or \<open>NaN\<close>: \<open>None\<close>;
  or 0) gives way to the default.
\<close>

definition effective_ttl :: "'v cache \<Rightarrow> int option \<Rightarrow> int" where
  "effective_ttl c ttl =
     (case ttl of None \<Rightarrow> defaultTTL c | Some t \<Rightarrow> if t = 0 then defaultTTL c else t)"

definition cache_delete :: "string \<Rightarrow> 'v cache \<Rightarrow> bool \<times> 'v cache" where
  "cache_delete key c =
     (if \<not> reachable c then (False, c)
      else (True, c\<lparr>rows := (rows c)(key := None)\<rparr>))"

text \<open>
  \<open>get(key)\<close>, with \<open>now\<close> the time \<open>new Date()\<close> reads in the expiry test. A live row
  counts a hit and gives its value, also when the value is \<open>null\<close>.
\<close>

definition cache_get :: "string \<Rightarrow> int \<Rightarrow> 'v cache \<Rightarrow> 'v option \<times> 'v cache" where
  "cache_get key now c =
     (if \<not> reachable c then (None, c)
      else case rows c key of
        None \<Rightarrow> (None, c)
      | Some data \<Rightarrow>
          if expires_at data < now then (None, snd (cache_delete key c))
          else (row_value data,
                c\<lparr>rows := (rows c)(key \<mapsto> data\<lparr>hit_count := hit_count data + 1\<rparr>)\<rparr>))"

text \<open>
  \<open>set(key, value, ttl, source)\<close>, with \<open>now\<close> the reading of \<open>Date.now()\<close>. When the
  expiry \<open>new Date(now + ttl * 1000)\<close> is an invalid date, \<open>toISOString\<close> throws a
  \<open>RangeError\<close> before the store is asked; \<open>set\<close> catches it, as it catches an error of
  the store, and returns \<open>false\<close> with nothing stored.
\<close>

definition cache_set ::
  "string \<Rightarrow> 'v \<Rightarrow> int option \<Rightarrow> string option \<Rightarrow> int \<Rightarrow> 'v cache \<Rightarrow> bool \<times> 'v cache" where
  "cache_set key v ttl src now c =
     (let expiresAt = newDate (now + effective_ttl c ttl * 1000)
      in case expiresAt of
           InvalidDate \<Rightarrow> (False, c)
         | ValidDate expiry \<Rightarrow>
             if \<not> reachable c then (False, c)
             else (True,
                   c\<lparr>rows := (rows c)(key \<mapsto>
                        \<lparr>row_value = json_roundtrip c v, expires_at = expiry,
                         row_source = src, hit_count = 0\<rparr>)\<rparr>))"

text \<open>
  \<open>getOrSet(key, fetchFunction, ttl, source)\<close>. The fetch function acts on a world \<open>'w\<close>
  of its own (the network, a call counter) and returns a value, \<open>null\<close> (\<open>Inr None\<close>) or
  throws (\<open>Inl\<close>). \<open>t_get\<close> is the time of the look-up, \<open>t_set\<close> the time of the store
  after the fetch function has returned.
\<close>

definition getOrSet ::
  "string \<Rightarrow> ('w \<Rightarrow> (js_error + 'v option) \<times> 'w) \<Rightarrow> int option \<Rightarrow> string option \<Rightarrow> int \<Rightarrow> int
     \<Rightarrow> 'v cache \<times> 'w \<Rightarrow> (js_error + 'v option) \<times> ('v cache \<times> 'w)" where
  "getOrSet key fetchFunction ttl src t_get t_set state =
     (case state of (c, w) \<Rightarrow>
        (case cache_get key t_get c of
           (Some cachedValue, c') \<Rightarrow> (Inr (Some cachedValue), (c', w))
         | (None, c') \<Rightarrow>
             (case fetchFunction w of
                (Inr (Some fetchedValue), w') \<Rightarrow>
                  (Inr (Some fetchedValue),
                   (snd (cache_set key fetchedValue ttl src t_set c'), w'))
              | (Inr None, w') \<Rightarrow> (Inr None, (c', w'))
              | (Inl error, w') \<Rightarrow> (Inl error, (c', w')))))"

text \<open>
  \<open>fetchUpdates\<close> and \<open>fetchReports\<close>: the computations above behind the cache, under a
  key made of the service, the disaster and the sources or the search query. Neither
  computation throws or touches a world of its own. \<open>now\<close> is the reading of the clock
  when the updates are ranked, between the look-up and the store.
\<close>

definition fetchUpdates ::
  "(string \<Rightarrow> int option \<Rightarrow> js_error + update list) \<Rightarrow> (nat \<Rightarrow> int) \<Rightarrow> string \<Rightarrow> disaster
     \<Rightarrow> string list \<Rightarrow> int \<Rightarrow> int option \<Rightarrow> int \<Rightarrow> int \<Rightarrow> int \<Rightarrow> update list cache \<times> unit
     \<Rightarrow> (js_error + update list option) \<times> (update list cache \<times> unit)" where
  "fetchUpdates adapter random_age disasterId disaster sources maxResults timeWindow t_get now t_set =
     (let cacheKey =
        generateKey ''official_updates'' disasterId (StringInput (join_with '','' sources))
      in getOrSet cacheKey
           (\<lambda>w. (Inr (Some (fetchUpdates_compute adapter now random_age disaster sources
                               maxResults timeWindow)), w))
           (Some 1800) (Some ''official_updates'') t_get t_set)"

definition fetchReports ::
  "providers \<Rightarrow> string \<Rightarrow> disaster \<Rightarrow> string \<Rightarrow> int \<Rightarrow> int \<Rightarrow> int \<Rightarrow> post list cache \<times> unit
     \<Rightarrow> (js_error + post list option) \<times> (post list cache \<times> unit)" where
  "fetchReports env disasterId disaster provider maxResults t_get t_set =
     (let searchQuery = buildSearchQuery disaster;
          cacheKey = generateKey ''social_media'' (provider @ ''_'' @ disasterId)
                       (StringInput searchQuery)
      in getOrSet cacheKey
           (\<lambda>w. (Inr (Some (fetchReports_compute env provider disaster maxResults)), w))
           (Some 600) (Some (''social_media_'' @ provider)) t_get t_set)"



section \<open>Notions used in the statements\<close>

text \<open>
  The score a ranked update carries, the record the ranking makes of an update, the
  cache key of \<open>fetchUpdates\<close> (which \<open>maxResults\<close> and \<open>timeWindow\<close> are no part of),
  and the order in which \<open>fetchReports\<close> leaves two processed posts: the urgent one
  first, and of two posts of the same urgency the more recent one first.
\<close>

definition update_score :: "update \<Rightarrow> real" where
  "update_score u = (case relevanceScore u of None \<Rightarrow> 0 | Some s \<Rightarrow> s)"

definition with_score :: "int \<Rightarrow> disaster \<Rightarrow> update \<Rightarrow> update" where
  "with_score now disaster u = u\<lparr>relevanceScore := Some (update_relevance now u disaster)\<rparr>"

definition fetchUpdates_key :: "string \<Rightarrow> string list \<Rightarrow> string" where
  "fetchUpdates_key disasterId sources =
     generateKey ''official_updates'' disasterId (StringInput (join_with '','' sources))"

definition posts_in_order :: "post \<Rightarrow> post \<Rightarrow> bool" where
  "posts_in_order a b =
     ((post_isUrgent a = Some True \<and> post_isUrgent b = Some False) \<or>
      (post_isUrgent a = post_isUrgent b \<and> post_createdAt b \<le> post_createdAt a))"


section \<open>Example data\<close>

text \<open>
  An empty cache with the default TTL of one hour, whose store gives every value back as
  it was sent; a fetch function that counts its calls in its world, and one that throws.
\<close>

definition empty_cache :: "string cache" where
  "empty_cache =
     \<lparr>defaultTTL = 3600, rows = Map.empty, reachable = True, json_roundtrip = Some\<rparr>"

definition counting_fetch :: "nat \<Rightarrow> (js_error + string option) \<times> nat" where
  "counting_fetch calls = (Inr (Some ''value''), calls + 1)"

definition failing_fetch :: "nat \<Rightarrow> (js_error + string option) \<times> nat" where
  "failing_fetch calls = (Inl (Error ''all sources failed''), calls + 1)"

text \<open>
  The disaster of the services' health checks; an update as the FEMA adapter builds it
  from a headline; an adapter environment in which FEMA answers and every other source
  times out; a post as the Twitter adapter builds it; providers where Twitter answers.
\<close>

definition ex_disaster :: disaster where
  "ex_disaster = \<lparr>disaster_id = ''test'', tags = Some [''flood''],
     location_name = Some ''Test City''\<rparr>"

definition ex_update :: "string \<Rightarrow> int \<Rightarrow> update" where
  "ex_update link published =
     \<lparr>title = ''Flood warning'', content = ''Flood warning for Test City'',
      url = Some link, publishedAt = Some published, source = ''FEMA'',
      updateType = classifyUpdateType ''Flood warning'',
      priorityLevel = calculatePriority ''Flood warning'', relevanceScore = None\<rparr>"

definition ex_adapter :: "update list \<Rightarrow> string \<Rightarrow> int option \<Rightarrow> js_error + update list" where
  "ex_adapter updates sourceKey timeWindow =
     (if sourceKey = ''fema'' then Inr updates else Inl (Error ''timeout''))"

definition ex_random_age :: "nat \<Rightarrow> int" where
  "ex_random_age index = 0"

definition ex_post :: "string \<Rightarrow> int \<Rightarrow> post" where
  "ex_post text created =
     \<lparr>post_id = ''1'', post_content = text, post_author = ''citizen_reporter'',
      post_createdAt = created, post_platform = ''twitter'',
      post_metrics = Some \<lparr>likes = Some 0, retweets = Some 0, reposts = None, replies = Some 0\<rparr>,
      post_verified = False, post_isUrgent = None, post_classification = None,
      post_relevanceScore = None\<rparr>"

definition ex_providers :: "post list \<Rightarrow> providers" where
  "ex_providers posts =
     \<lparr>twitter_posts = Inr posts, bluesky_posts = [], generateMockPosts = (\<lambda>count. [])\<rparr>"

text \<open>
  A record that the FEMA adapter returns twice; an empty cache of update lists; and that
  cache after a first call of \<open>fetchUpdates\<close>, at time 3600000 with \<open>maxResults = 20\<close>.
\<close>

definition ex_duplicates :: "update list" where
  "ex_duplicates =
     [ex_update ''https://www.fema.gov/a'' 0, ex_update ''https://www.fema.gov/a'' 0]"

definition ex_updates_cache :: "update list cache" where
  "ex_updates_cache =
     \<lparr>defaultTTL = 3600, rows = Map.empty, reachable = True, json_roundtrip = Some\<rparr>"

definition ex_cache_after_first_call :: "update list cache" where
  "ex_cache_after_first_call =
     fst (snd (fetchUpdates (ex_adapter ex_duplicates) ex_random_age ''test'' ex_disaster
                 [''fema''] 20 (Some 72) 3600000 3600000 3600000 (ex_updates_cache, ())))"


section \<open>Properties of the string functions\<close>

lemma toLowerCase_append: "toLowerCase (a @ b) = toLowerCase a @ toLowerCase b"
  by (simp add: toLowerCase_def)

lemma of_char_char_of_small: "n < 256 \<Longrightarrow> (of_char (char_of n) :: nat) = n"
  by simp

lemma toLowerCaseChar_not_upper: "\<not> isUpperChar (toLowerCaseChar c)"
proof (cases "isUpperChar c")
  case True
  then have "(of_char (char_of ((of_char c :: nat) + 32)) :: nat) = of_char c + 32"
    by (intro of_char_char_of_small) (simp add: isUpperChar_def)
  with True show ?thesis
    by (simp add: toLowerCaseChar_def isUpperChar_def)
next
  case False
  then show ?thesis by (simp add: toLowerCaseChar_def)
qed

lemma no_upper_toLowerCase: "no_upper (toLowerCase s)"
  by (simp add: no_upper_def toLowerCase_def list_all_iff toLowerCaseChar_not_upper)

lemma toLowerCaseChar_whitespace: "isWhitespace (toLowerCaseChar c) = isWhitespace c"
proof (cases "isUpperChar c")
  case True
  then have "(of_char (char_of ((of_char c :: nat) + 32)) :: nat) = of_char c + 32"
    by (intro of_char_char_of_small) (simp add: isUpperChar_def)
  with True show ?thesis
    by (auto simp add: toLowerCaseChar_def isUpperChar_def isWhitespace_def)
next
  case False
  then show ?thesis by (simp add: toLowerCaseChar_def)
qed

lemma no_whitespace_toLowerCase: "no_whitespace (toLowerCase s) = no_whitespace s"
  by (induction s) (simp_all add: no_whitespace_def toLowerCase_def toLowerCaseChar_whitespace)

lemma no_whitespace_append: "no_whitespace (a @ b) = (no_whitespace a \<and> no_whitespace b)"
  by (simp add: no_whitespace_def)

lemma toLowerCase_id: "no_upper s \<Longrightarrow> toLowerCase s = s"
  by (induction s) (simp_all add: no_upper_def toLowerCase_def toLowerCaseChar_def)

lemma digit36_base36: "d < 36 \<Longrightarrow> isBase36Char (digit36 d)"
  by (simp add: digit36_def isBase36Char_def)

lemma toString36_base36: "list_all isBase36Char (toString36 n)"
proof (induction n rule: toString36.induct)
  case (1 n)
  show ?case
  proof (cases "n < 36")
    case True
    then show ?thesis by (subst toString36.simps) (simp add: digit36_base36)
  next
    case False
    with 1 have "list_all isBase36Char (toString36 (n div 36))" by simp
    moreover have "isBase36Char (digit36 (n mod 36))" by (rule digit36_base36) simp
    ultimately show ?thesis using False by (subst toString36.simps) simp
  qed
qed

lemma hashString_base36: "list_all isBase36Char (hashString s)"
  by (simp add: hashString_def toString36_base36)

lemma base36_no_upper: "list_all isBase36Char s \<Longrightarrow> no_upper s"
  by (induction s) (auto simp add: no_upper_def isBase36Char_def isUpperChar_def)

lemma base36_no_whitespace: "list_all isBase36Char s \<Longrightarrow> no_whitespace s"
  by (induction s) (auto simp add: no_whitespace_def isBase36Char_def isWhitespace_def)

lemma toString36_nonempty: "toString36 n \<noteq> []"
  by (subst toString36.simps) simp


text \<open>Unfolding these evaluates the string functions on literals.\<close>

lemmas eval_strings = toLowerCase_def toLowerCaseChar_def isUpperChar_def char_of_def
  bit_Suc_0_iff trim_def isWhitespace_def


section \<open>Classification follows the ordered rule table\<close>

lemma first_match_wins:
  "\<not> list_ex (\<lambda>(keywords, label). list_ex (str_includes text) keywords) before \<Longrightarrow>
   list_ex (str_includes text) keywords \<Longrightarrow>
   first_match (before @ (keywords, label) # after) dflt text = label"
  by (induction before) auto

lemma first_match_default:
  "\<not> list_ex (\<lambda>(keywords, label). list_ex (str_includes text) keywords) rules \<Longrightarrow>
   first_match rules dflt text = dflt"
  by (induction rules) auto

text \<open>
  Claim C8. The label of an update is read off the ordered table \<open>updateType_rules\<close>
  (evacuation, then warning or alert, then advisory, then update or status, then relief or
  aid) on the lower-cased title, the first rule with a keyword in the title giving the
  label and \<open>general\<close> being the default; the classification of a post is read off its
  own ordered table in the same way. A title that matches a rule of the table and none of
  the rules before it gets the label of that rule: a title that matches an earlier rule
  never gets the label of a later one.
\<close>

theorem classify_first_match:
  "classifyUpdateType headline = first_match updateType_rules ''general'' (toLowerCase headline) \<and>
   classifyPost body = first_match classification_rules ''general'' (toLowerCase body) \<and>
   (updateType_rules = before @ (keywords, label) # after \<and>
    list_ex (str_includes (toLowerCase headline)) keywords \<and>
    \<not> list_ex (\<lambda>(ks, l). list_ex (str_includes (toLowerCase headline)) ks) before \<longrightarrow>
      classifyUpdateType headline = label)"
proof -
  have table: "classifyUpdateType headline =
      first_match updateType_rules ''general'' (toLowerCase headline)"
    by (simp add: classifyUpdateType_def updateType_rules_def Let_def)
  have post: "classifyPost body = first_match classification_rules ''general'' (toLowerCase body)"
    by (simp add: classifyPost_def classification_rules_def regex_test_ci_def Let_def)
  have "classifyUpdateType headline = label"
    if "updateType_rules = before @ (keywords, label) # after"
      and "list_ex (str_includes (toLowerCase headline)) keywords"
      and "\<not> list_ex (\<lambda>(ks, l). list_ex (str_includes (toLowerCase headline)) ks) before"
    using that first_match_wins [of "toLowerCase headline" before "keywords" label after "''general''"]
    by (simp add: table)
  with table post show ?thesis by blast
qed

text \<open>
  The headline "Flood Warning: relief update" matches the second, the fourth and the fifth
  rule, and not the first: its label is that of the second rule.
\<close>

theorem classify_first_match_witness:
  "updateType_rules =
     [([''evacuation''], ''evacuation'')] @ ([''warning'', ''alert''], ''alert'') #
     [([''advisory''], ''advisory''), ([''update'', ''status''], ''update''),
      ([''relief'', ''aid''], ''relief'')] \<and>
   list_ex (str_includes (toLowerCase ''Flood Warning: relief update'')) [''warning'', ''alert''] \<and>
   \<not> list_ex (\<lambda>(ks, l). list_ex (str_includes (toLowerCase ''Flood Warning: relief update'')) ks)
       [([''evacuation''], ''evacuation'')] \<and>
   classifyUpdateType ''Flood Warning: relief update'' = ''alert''"
proof -
  have low: "toLowerCase ''Flood Warning: relief update'' = ''flood warning: relief update''"
    by (simp add: eval_strings)
  have h1: "updateType_rules =
     [([''evacuation''], ''evacuation'')] @ ([''warning'', ''alert''], ''alert'') #
     [([''advisory''], ''advisory''), ([''update'', ''status''], ''update''),
      ([''relief'', ''aid''], ''relief'')]"
    by (simp add: updateType_rules_def)
  have h2: "list_ex (str_includes (toLowerCase ''Flood Warning: relief update''))
      [''warning'', ''alert'']"
    by (simp add: low)
  have h3: "\<not> list_ex (\<lambda>(ks, l).
      list_ex (str_includes (toLowerCase ''Flood Warning: relief update'')) ks)
       [([''evacuation''], ''evacuation'')]"
    by (simp add: low)
  from classify_first_match [of "''Flood Warning: relief update''" "''''"
      "[([''evacuation''], ''evacuation'')]" "[''warning'', ''alert'']" "''alert''"
      "[([''advisory''], ''advisory''), ([''update'', ''status''], ''update''),
        ([''relief'', ''aid''], ''relief'')]"] h1 h2 h3
  show ?thesis by blast
qed

lemma classifyUpdateType_examples:
  "classifyUpdateType ''Evacuation Warning: status Update'' = ''evacuation''"
  "classifyUpdateType ''Flood Warning: relief update'' = ''alert''"
  "classifyUpdateType ''Road repairs'' = ''general''"
  by code_simp+


section \<open>Format of the cache key\<close>

text \<open>
  Claim C7, as the specification states it, fails: a short input is embedded as it is,
  with its white space. The search query of the social media service, terms joined by
  \<open>" OR "\<close>, is such an input; the key below is the one \<open>fetchReports\<close> derives in
  the health check of the service.
\<close>

theorem generateKey_whitespace_counterexample:
  "generateKey ''social_media'' ''mock_test'' (StringInput (buildSearchQuery ex_disaster)) =
     ''social_media:mock_test:flood or test city or emergency or disaster or help'' \<and>
   \<not> no_whitespace
      (generateKey ''social_media'' ''mock_test'' (StringInput (buildSearchQuery ex_disaster)))"
  by code_simp

lemma hashString_example: "hashString ''hello'' = ''1n1e4y''"
  by (simp add: hashString_def hashStep_def toInt32_def toString36.simps digit36_def
      char_of_def bit_Suc_0_iff)

text \<open>
  Claim C7, amended. For a string input the key is the lower-cased service, a colon, the
  lower-cased operation, a colon, and then the base-36 hash of the input when the input
  is longer than 100 characters, the lower-cased input itself otherwise. The key has no
  upper-case letter, the hash is made of digits and the letters \<open>a\<close> to \<open>z\<close> only, and
  the key is free of white space exactly when the service, the operation and, where it
  is embedded, the input are.
\<close>

theorem generateKey_format:
  "generateKey service operation (StringInput s) =
     toLowerCase service @ '':'' @ toLowerCase operation @ '':'' @
       (if length s > 100 then hashString s else toLowerCase s) \<and>
   no_upper (generateKey service operation (StringInput s)) \<and>
   list_all isBase36Char (hashString s) \<and>
   no_whitespace (generateKey service operation (StringInput s)) =
     (no_whitespace service \<and> no_whitespace operation \<and> (length s > 100 \<or> no_whitespace s))"
proof -
  have lower_hash: "toLowerCase (hashString s) = hashString s"
    by (simp add: toLowerCase_id base36_no_upper hashString_base36)
  have colon: "toLowerCase '':'' = '':''"
    by code_simp
  have form: "generateKey service operation (StringInput s) =
     toLowerCase service @ '':'' @ toLowerCase operation @ '':'' @
       (if length s > 100 then hashString s else toLowerCase s)"
    by (simp only: generateKey_def Let_def key_input.case toLowerCase_append lower_hash colon
        if_distrib [of toLowerCase])
  have upper: "no_upper (generateKey service operation (StringInput s))"
    by (simp add: generateKey_def Let_def no_upper_toLowerCase)
  have colon_ws: "\<not> isWhitespace CHR '':''"
    by code_simp
  have cons_ws: "no_whitespace (c # r) = (\<not> isWhitespace c \<and> no_whitespace r)" for c r
    by (simp add: no_whitespace_def)
  have ws: "no_whitespace (generateKey service operation (StringInput s)) =
     (no_whitespace service \<and> no_whitespace operation \<and> (length s > 100 \<or> no_whitespace s))"
    unfolding form
    by (auto simp add: no_whitespace_append no_whitespace_toLowerCase colon_ws cons_ws
        base36_no_whitespace hashString_base36)
  from form upper ws show ?thesis
    by (simp add: hashString_base36)
qed


section \<open>The time-window filter\<close>

text \<open>
  Claim C3, as the specification states it for every window, fails for a window so large
  that the cutoff is no date: with the window of 10000000000 hours that the query
  parameter \<open>time_window\<close> can carry, a record dated now is at or after
  \<open>now - timeWindow\<close>, and is dropped.
\<close>

theorem isWithinTimeWindow_huge_window_counterexample:
  "1700000000000 - 10000000000 * 3600000 \<le> (1700000000000::int) \<and>
   \<not> isWithinTimeWindow 1700000000000 (Some (ValidDate 1700000000000)) (Some 10000000000)"
  by (simp add: isWithinTimeWindow_def newDate_def)

text \<open>
  Claim C3, amended. A record is kept exactly when its date is \<open>null\<close>, or the window is
  a number of hours whose cutoff \<open>now - timeWindow\<close> is a date (within 8640000000000000 ms
  of the epoch) and the record's date is a valid date at or after that cutoff. For such
  a window a record dated one second before the cutoff is dropped and one dated one
  second after it is kept. A record without a date is always kept.
\<close>

theorem isWithinTimeWindow_iff:
  "isWithinTimeWindow now date timeWindow =
     (date = None \<or>
      (\<exists>t hours. date = Some (ValidDate t) \<and> timeWindow = Some hours \<and>
         \<bar>now - hours * 3600000\<bar> \<le> 8640000000000000 \<and> now - hours * 3600000 \<le> t)) \<and>
   (\<bar>now - h * 3600000\<bar> \<le> 8640000000000000 \<longrightarrow>
      \<not> isWithinTimeWindow now (Some (ValidDate (now - h * 3600000 - 1000))) (Some h) \<and>
      isWithinTimeWindow now (Some (ValidDate (now - h * 3600000 + 1000))) (Some h)) \<and>
   isWithinTimeWindow now None timeWindow"
proof -
  have iff: "isWithinTimeWindow now date timeWindow =
     (date = None \<or>
      (\<exists>t hours. date = Some (ValidDate t) \<and> timeWindow = Some hours \<and>
         \<bar>now - hours * 3600000\<bar> \<le> 8640000000000000 \<and> now - hours * 3600000 \<le> t))"
  proof (cases date)
    case None
    then show ?thesis by (simp add: isWithinTimeWindow_def)
  next
    case (Some d)
    show ?thesis
    proof (cases timeWindow)
      case None
      with Some show ?thesis by (cases d) (simp_all add: isWithinTimeWindow_def)
    next
      case (Some hours)
      with \<open>date = Some d\<close> show ?thesis
        by (cases d) (simp_all add: isWithinTimeWindow_def newDate_def mult.commute)
    qed
  qed
  have boundary: "\<not> isWithinTimeWindow now (Some (ValidDate (now - h * 3600000 - 1000))) (Some h) \<and>
      isWithinTimeWindow now (Some (ValidDate (now - h * 3600000 + 1000))) (Some h)"
    if "\<bar>now - h * 3600000\<bar> \<le> 8640000000000000"
    using that by (simp add: isWithinTimeWindow_def newDate_def mult.commute)
  have null: "isWithinTimeWindow now None timeWindow"
    by (simp add: isWithinTimeWindow_def)
  from iff boundary null show ?thesis by blast
qed

text \<open>
  With a window of 72 hours at time 1700000000000 the cutoff is 1699740800000.
\<close>

theorem isWithinTimeWindow_iff_witness:
  "\<bar>1700000000000 - 72 * 3600000\<bar> \<le> (8640000000000000::int) \<and>
   \<not> isWithinTimeWindow 1700000000000 (Some (ValidDate 1699740799000)) (Some 72) \<and>
   isWithinTimeWindow 1700000000000 (Some (ValidDate 1699740801000)) (Some 72)"
  using isWithinTimeWindow_iff [of 1700000000000 None None 72] by simp


section \<open>Relevance of a post\<close>

lemma fold_bonus_ge:
  assumes "0 \<le> (b::real)"
  shows "s \<le> fold (\<lambda>x sc. if P x then sc + b else sc) xs s"
proof (induction xs arbitrary: s)
  case Nil
  show ?case by simp
next
  case (Cons x xs)
  show ?case
  proof (cases "P x")
    case True
    have "s \<le> s + b" using assms by simp
    also have "\<dots> \<le> fold (\<lambda>x sc. if P x then sc + b else sc) xs (s + b)"
      by (rule Cons.IH)
    finally show ?thesis using True by simp
  next
    case False
    then show ?thesis using Cons.IH [of s] by simp
  qed
qed

lemma post_tag_bonus_ge: "score \<le> post_tag_bonus post disaster score"
  by (simp add: post_tag_bonus_def fold_bonus_ge split: option.splits)

lemma post_location_bonus_ge: "score \<le> post_location_bonus post disaster score"
  by (simp add: post_location_bonus_def Let_def fold_bonus_ge split: option.splits)

lemma post_urgency_bonus_ge: "score \<le> post_urgency_bonus post score"
  by (simp add: post_urgency_bonus_def)

lemma post_engagement_bonus_ge: "score \<le> post_engagement_bonus post score"
  by (cases "post_metrics post") (simp_all add: post_engagement_bonus_def Let_def)

lemma post_verified_bonus_ge: "score \<le> post_verified_bonus post score"
  by (simp add: post_verified_bonus_def)

text \<open>
  Claim C10. The relevance score of a post lies between 0.5 and 1.0: the score starts
  at 0.5, no step lowers it, and the result is capped at 1.0.
\<close>

theorem calculateRelevance_bounds:
  "0.5 \<le> calculateRelevance post disaster \<and> calculateRelevance post disaster \<le> 1.0"
proof -
  define s1 where "s1 = post_tag_bonus post disaster 0.5"
  define s2 where "s2 = post_location_bonus post disaster s1"
  define s3 where "s3 = post_urgency_bonus post s2"
  define s4 where "s4 = post_engagement_bonus post s3"
  define s5 where "s5 = post_verified_bonus post s4"
  have "0.5 \<le> s1" unfolding s1_def by (rule post_tag_bonus_ge)
  also have "s1 \<le> s2" unfolding s2_def by (rule post_location_bonus_ge)
  also have "s2 \<le> s3" unfolding s3_def by (rule post_urgency_bonus_ge)
  also have "s3 \<le> s4" unfolding s4_def by (rule post_engagement_bonus_ge)
  also have "s4 \<le> s5" unfolding s5_def by (rule post_verified_bonus_ge)
  finally have "0.5 \<le> s5" .
  moreover have "calculateRelevance post disaster = min s5 1.0"
    by (simp only: calculateRelevance_def Let_def s5_def s4_def s3_def s2_def s1_def)
  ultimately show ?thesis by simp
qed


section \<open>The cache round trip\<close>

lemma cache_get_reachable [simp]: "reachable (snd (cache_get key now c)) = reachable c"
  by (simp add: cache_get_def cache_delete_def split: option.splits)

lemma cache_get_defaultTTL [simp]: "defaultTTL (snd (cache_get key now c)) = defaultTTL c"
  by (simp add: cache_get_def cache_delete_def split: option.splits)

lemma cache_get_json_roundtrip [simp]:
  "json_roundtrip (snd (cache_get key now c)) = json_roundtrip c"
  by (simp add: cache_get_def cache_delete_def split: option.splits)

lemma effective_ttl_cache_get [simp]:
  "effective_ttl (snd (cache_get key now c)) ttl = effective_ttl c ttl"
  by (simp add: effective_ttl_def split: option.splits)

lemma getOrSet_miss_eq:
  assumes "fst (cache_get key t1 c) = None"
  shows "getOrSet key fetchFunction ttl src t1 t2 (c, w) =
    (case fetchFunction w of
       (Inr (Some fetchedValue), w') \<Rightarrow>
         (Inr (Some fetchedValue),
          (snd (cache_set key fetchedValue ttl src t2 (snd (cache_get key t1 c))), w'))
     | (Inr None, w') \<Rightarrow> (Inr None, (snd (cache_get key t1 c), w'))
     | (Inl error, w') \<Rightarrow> (Inl error, (snd (cache_get key t1 c), w')))"
  using assms
  by (cases "cache_get key t1 c") (simp add: getOrSet_def split: prod.splits sum.splits option.splits)

lemma getOrSet_hit_eq:
  assumes "reachable c" and "rows c key = Some data" and "\<not> expires_at data < t"
    and "row_value data = Some cachedValue"
  shows "getOrSet key fetchFunction ttl src t t' (c, w) =
    (Inr (Some cachedValue),
     (c\<lparr>rows := (rows c)(key \<mapsto> data\<lparr>hit_count := hit_count data + 1\<rparr>)\<rparr>, w))"
  using assms by (simp add: getOrSet_def cache_get_def)

lemma cache_get_expired:
  assumes "rows c key = Some data" and "expires_at data < t"
  shows "fst (cache_get key t c) = None"
  using assms by (simp add: cache_get_def)

lemma rows_cache_set:
  "reachable c \<Longrightarrow> \<bar>now + effective_ttl c ttl * 1000\<bar> \<le> 8640000000000000 \<Longrightarrow>
   rows (snd (cache_set key v ttl src now c)) key =
     Some \<lparr>row_value = json_roundtrip c v, expires_at = now + effective_ttl c ttl * 1000,
           row_source = src, hit_count = 0\<rparr>"
  by (simp add: cache_set_def newDate_def Let_def)

lemma cache_set_reachable [simp]:
  "reachable (snd (cache_set key v ttl src now c)) = reachable c"
  by (simp add: cache_set_def Let_def split: js_date.splits)

lemma cache_set_refused:
  "\<not> reachable c \<or> \<not> \<bar>now + effective_ttl c ttl * 1000\<bar> \<le> 8640000000000000 \<Longrightarrow>
   snd (cache_set key v ttl src now c) = c"
  by (auto simp add: cache_set_def newDate_def Let_def)

lemma effective_ttl_cases:
  "effective_ttl c None = defaultTTL c \<and> effective_ttl c (Some 0) = defaultTTL c \<and>
   (\<forall>n. n \<noteq> 0 \<longrightarrow> effective_ttl c (Some n) = n)"
  by (simp add: effective_ttl_def)

text \<open>
  Claim C5, amended. Let the effective TTL be \<open>ttl\<close> itself when it is not 0, and the
  default TTL when \<open>ttl\<close> is 0 or left out. Provided that the store answers, that the
  expiry, the time of the store plus the effective TTL, is a date (within
  8640000000000000 ms of the epoch), and that the value is JSON data, which the store
  gives back as it was sent: a first call that misses and whose fetch function returns
  a value \<open>v\<close> returns \<open>v\<close>; a second call made no later than the expiry returns
  \<open>v\<close> from the cache, leaves the world of the fetch function as the first call left it
  (the function is not invoked again) and counts one hit; a call made after the expiry
  invokes the fetch function again and returns what it produces.
\<close>

theorem getOrSet_round_trip:
  assumes "reachable c"
    and "fst (cache_get key t1 c) = None"
    and "fetchFunction w = (Inr (Some v), w1)"
    and "\<bar>t2 + effective_ttl c ttl * 1000\<bar> \<le> 8640000000000000"
    and "t3 \<le> t2 + effective_ttl c ttl * 1000"
    and "t2 + effective_ttl c ttl * 1000 < t5"
    and "json_roundtrip c v = Some v"
  shows "(let s1 = snd (getOrSet key fetchFunction ttl src t1 t2 (c, w));
              s2 = snd (getOrSet key fetchFunction ttl src t3 t4 s1)
          in fst (getOrSet key fetchFunction ttl src t1 t2 (c, w)) = Inr (Some v) \<and>
             snd s1 = w1 \<and>
             fst (getOrSet key fetchFunction ttl src t3 t4 s1) = Inr (Some v) \<and>
             snd s2 = w1 \<and>
             map_option hit_count (rows (fst s2) key) = Some 1 \<and>
             fst (getOrSet key fetchFunction ttl src t5 t6 s2) = fst (fetchFunction w1) \<and>
             snd (snd (getOrSet key fetchFunction ttl src t5 t6 s2)) = snd (fetchFunction w1)) \<and>
         effective_ttl c None = defaultTTL c \<and>
         effective_ttl c (Some 0) = defaultTTL c \<and>
         (\<forall>n. n \<noteq> 0 \<longrightarrow> effective_ttl c (Some n) = n)"
proof -
  define c0 where "c0 = snd (cache_get key t1 c)"
  define row where "row = \<lparr>row_value = Some v, expires_at = t2 + effective_ttl c ttl * 1000,
    row_source = src, hit_count = 0\<rparr>"
  define c1 where "c1 = snd (cache_set key v ttl src t2 c0)"
  define c2 where "c2 = c1\<lparr>rows := (rows c1)(key \<mapsto> row\<lparr>hit_count := hit_count row + 1\<rparr>)\<rparr>"
  have reach0: "reachable c0" using assms(1) by (simp add: c0_def)
  have range0: "\<bar>t2 + effective_ttl c0 ttl * 1000\<bar> \<le> 8640000000000000"
    using assms(4) by (simp add: c0_def)
  have first: "getOrSet key fetchFunction ttl src t1 t2 (c, w) = (Inr (Some v), (c1, w1))"
    using assms(2,3) by (simp add: getOrSet_miss_eq c1_def c0_def)
  have reach1: "reachable c1"
    using reach0 by (simp add: c1_def)
  have row1: "rows c1 key = Some row"
    using rows_cache_set [OF reach0 range0] assms(7) by (simp add: c1_def row_def c0_def)
  have live: "\<not> expires_at row < t3"
    using assms(5) by (simp add: row_def)
  have second: "getOrSet key fetchFunction ttl src t3 t4 (c1, w1) = (Inr (Some v), (c2, w1))"
    using getOrSet_hit_eq [OF reach1 row1 live, of v fetchFunction ttl src t4 w1]
    by (simp add: c2_def row_def)
  have row2: "rows c2 key = Some (row\<lparr>hit_count := hit_count row + 1\<rparr>)"
    by (simp add: c2_def)
  have "expires_at (row\<lparr>hit_count := hit_count row + 1\<rparr>) < t5"
    using assms(6) by (simp add: row_def)
  with row2 have miss3: "fst (cache_get key t5 c2) = None"
    by (rule cache_get_expired)
  have third: "fst (getOrSet key fetchFunction ttl src t5 t6 (c2, w1)) = fst (fetchFunction w1) \<and>
     snd (snd (getOrSet key fetchFunction ttl src t5 t6 (c2, w1))) = snd (fetchFunction w1)"
    by (simp add: getOrSet_miss_eq [OF miss3] split: prod.splits sum.splits option.splits)
  have hits: "map_option hit_count (rows c2 key) = Some 1"
    by (simp add: row2 row_def)
  show ?thesis
    using third hits effective_ttl_cases [of c] by (simp add: first second Let_def)
qed

text \<open>
  At a TTL of 600 seconds, with the value stored at time 2000: the call at 500000 leaves
  the call count at 1, the call at 700000 raises it to 2.
\<close>

theorem getOrSet_round_trip_witness:
  "reachable empty_cache \<and>
   fst (cache_get ''k'' 1000 empty_cache) = None \<and>
   counting_fetch 0 = (Inr (Some ''value''), 1) \<and>
   \<bar>2000 + effective_ttl empty_cache (Some 600) * 1000\<bar> \<le> (8640000000000000::int) \<and>
   (500000::int) \<le> 2000 + effective_ttl empty_cache (Some 600) * 1000 \<and>
   2000 + effective_ttl empty_cache (Some 600) * 1000 < (700000::int) \<and>
   json_roundtrip empty_cache ''value'' = Some ''value'' \<and>
   snd (snd (getOrSet ''k'' counting_fetch (Some 600) None 500000 500001
     (snd (getOrSet ''k'' counting_fetch (Some 600) None 1000 2000 (empty_cache, 0))))) = 1 \<and>
   snd (snd (getOrSet ''k'' counting_fetch (Some 600) None 700000 700001
     (snd (getOrSet ''k'' counting_fetch (Some 600) None 500000 500001
       (snd (getOrSet ''k'' counting_fetch (Some 600) None 1000 2000 (empty_cache, 0))))))) = 2"
proof -
  have h1: "reachable empty_cache" by (simp add: empty_cache_def)
  have h2: "fst (cache_get ''k'' 1000 empty_cache) = None"
    by (simp add: cache_get_def empty_cache_def)
  have h3: "counting_fetch 0 = (Inr (Some ''value''), 1)" by (simp add: counting_fetch_def)
  have h4: "\<bar>2000 + effective_ttl empty_cache (Some 600) * 1000\<bar> \<le> (8640000000000000::int)"
    by (simp add: effective_ttl_def)
  have h5: "(500000::int) \<le> 2000 + effective_ttl empty_cache (Some 600) * 1000"
    by (simp add: effective_ttl_def)
  have h6: "2000 + effective_ttl empty_cache (Some 600) * 1000 < (700000::int)"
    by (simp add: effective_ttl_def)
  have h7: "json_roundtrip empty_cache ''value'' = Some ''value''"
    by (simp add: empty_cache_def)
  show ?thesis
    using getOrSet_round_trip [where c = empty_cache and key = "''k''" and ?t1.0 = 1000
        and fetchFunction = counting_fetch and w = 0 and v = "''value''" and ?w1.0 = 1
        and ?t3.0 = 500000 and ?t2.0 = 2000 and ttl = "Some 600" and ?t5.0 = 700000
        and src = None and ?t4.0 = 500001 and ?t6.0 = 700001, OF h1 h2 h3 h4 h5 h6 h7]
      h1 h2 h3 h4 h5 h6 h7
    by (simp add: Let_def counting_fetch_def)
qed

text \<open>
  Claim C5, as the specification states it for every \<open>ttl\<close>, fails at \<open>ttl = 0\<close>: the
  entry is stored with the default TTL, and a call one second later, after a TTL of 0 has
  elapsed, is answered from the cache; the fetch function has still run once only.
\<close>

theorem getOrSet_ttl_zero_counterexample:
  "snd (snd (getOrSet ''k'' counting_fetch (Some 0) None 1000 1000
     (snd (getOrSet ''k'' counting_fetch (Some 0) None 0 0 (empty_cache, 0))))) = 1"
  by (simp add: getOrSet_def cache_get_def cache_set_def cache_delete_def effective_ttl_def
      newDate_def empty_cache_def counting_fetch_def)

text \<open>
  Where a proviso fails, so does the round trip: with a store that does not answer, with
  a TTL so long that the expiry is no date, or with a value that comes back from the
  store as \<open>null\<close>, the second call invokes the fetch function again.
\<close>

lemma getOrSet_nothing_stored_examples:
  "snd (snd (getOrSet ''k'' counting_fetch (Some 600) None 2000 2000
     (snd (getOrSet ''k'' counting_fetch (Some 600) None 1000 1000
        (empty_cache\<lparr>reachable := False\<rparr>, 0))))) = 2"
  "snd (snd (getOrSet ''k'' counting_fetch (Some 10000000000000) None 2000 2000
     (snd (getOrSet ''k'' counting_fetch (Some 10000000000000) None 1000 1000
        (empty_cache, 0))))) = 2"
  "snd (snd (getOrSet ''k'' counting_fetch (Some 600) None 2000 2000
     (snd (getOrSet ''k'' counting_fetch (Some 600) None 1000 1000
        (empty_cache\<lparr>json_roundtrip := (\<lambda>v. None)\<rparr>, 0))))) = 2"
  by (simp_all add: getOrSet_def cache_get_def cache_set_def cache_delete_def effective_ttl_def
      newDate_def empty_cache_def counting_fetch_def)

text \<open>
  Claim C6, amended. On a miss the fetch function is invoked once and what it produced,
  a value, \<open>null\<close> or a thrown error, is what the caller gets. A value is stored, in its
  JSON form, with the expiry \<open>t_set\<close> plus the effective TTL, the source and a hit count
  of 0, provided that
  the store answers and that this expiry is a date (within 8640000000000000 ms of the
  epoch); otherwise the value is returned all the same and nothing is stored. After
  \<open>null\<close> or an error nothing is stored. The effective TTL is \<open>ttl\<close> itself when it is not
  0, and the default TTL when \<open>ttl\<close> is 0 or left out.
\<close>

theorem getOrSet_miss:
  assumes "fst (cache_get key t1 c) = None"
  shows "fst (getOrSet key fetchFunction ttl src t1 t2 (c, w)) = fst (fetchFunction w) \<and>
    snd (snd (getOrSet key fetchFunction ttl src t1 t2 (c, w))) = snd (fetchFunction w) \<and>
    (\<forall>v. reachable c \<and> \<bar>t2 + effective_ttl c ttl * 1000\<bar> \<le> 8640000000000000 \<and>
         fst (fetchFunction w) = Inr (Some v) \<longrightarrow>
       rows (fst (snd (getOrSet key fetchFunction ttl src t1 t2 (c, w)))) key =
         Some \<lparr>row_value = json_roundtrip c v, expires_at = t2 + effective_ttl c ttl * 1000,
               row_source = src, hit_count = 0\<rparr>) \<and>
    (\<not> reachable c \<or> \<not> \<bar>t2 + effective_ttl c ttl * 1000\<bar> \<le> 8640000000000000 \<longrightarrow>
       fst (snd (getOrSet key fetchFunction ttl src t1 t2 (c, w))) = snd (cache_get key t1 c)) \<and>
    ((\<forall>v. fst (fetchFunction w) \<noteq> Inr (Some v)) \<longrightarrow>
       fst (snd (getOrSet key fetchFunction ttl src t1 t2 (c, w))) = snd (cache_get key t1 c)) \<and>
    effective_ttl c None = defaultTTL c \<and>
    effective_ttl c (Some 0) = defaultTTL c \<and>
    (\<forall>n. n \<noteq> 0 \<longrightarrow> effective_ttl c (Some n) = n)"
proof -
  define c0 where "c0 = snd (cache_get key t1 c)"
  obtain r w' where f: "fetchFunction w = (r, w')" by (cases "fetchFunction w")
  have stored: "rows (snd (cache_set key v ttl src t2 c0)) key =
      Some \<lparr>row_value = json_roundtrip c v, expires_at = t2 + effective_ttl c ttl * 1000,
            row_source = src, hit_count = 0\<rparr>"
    if "reachable c" "\<bar>t2 + effective_ttl c ttl * 1000\<bar> \<le> 8640000000000000" for v
    using rows_cache_set [of c0 t2 ttl key v src] that by (simp add: c0_def)
  have refused: "snd (cache_set key v ttl src t2 c0) = c0"
    if "\<not> reachable c \<or> \<not> \<bar>t2 + effective_ttl c ttl * 1000\<bar> \<le> 8640000000000000" for v
    using cache_set_refused [of c0 t2 ttl key v src] that by (simp add: c0_def)
  show ?thesis
  proof (cases r)
    case (Inl e)
    with f show ?thesis
      using effective_ttl_cases [of c] by (simp add: getOrSet_miss_eq [OF assms])
  next
    case (Inr vo)
    show ?thesis
    proof (cases vo)
      case None
      with f Inr show ?thesis
        using effective_ttl_cases [of c] by (simp add: getOrSet_miss_eq [OF assms])
    next
      case (Some v)
      with f Inr show ?thesis
        using effective_ttl_cases [of c] stored [of v] refused [of v]
        by (auto simp add: getOrSet_miss_eq [OF assms] c0_def)
    qed
  qed
qed

text \<open>
  A value stored with a TTL of 600 seconds; an error that is passed on; and a TTL too
  long for a date, with which the value is returned and the cache stays as it was.
\<close>

theorem getOrSet_miss_witness:
  "fst (cache_get ''k'' 1000 empty_cache) = None \<and>
   reachable empty_cache \<and>
   \<bar>2000 + effective_ttl empty_cache (Some 600) * 1000\<bar> \<le> (8640000000000000::int) \<and>
   fst (counting_fetch 0) = Inr (Some ''value'') \<and>
   fst (getOrSet ''k'' counting_fetch (Some 600) (Some ''svc'') 1000 2000 (empty_cache, 0)) =
     Inr (Some ''value'') \<and>
   rows (fst (snd (getOrSet ''k'' counting_fetch (Some 600) (Some ''svc'') 1000 2000
     (empty_cache, 0)))) ''k'' =
     Some \<lparr>row_value = Some ''value'', expires_at = 602000, row_source = Some ''svc'',
           hit_count = 0\<rparr> \<and>
   (\<forall>v. fst (failing_fetch 0) \<noteq> Inr (Some v)) \<and>
   fst (getOrSet ''k'' failing_fetch (Some 600) (Some ''svc'') 1000 2000 (empty_cache, 0)) =
     Inl (Error ''all sources failed'') \<and>
   fst (snd (getOrSet ''k'' failing_fetch (Some 600) (Some ''svc'') 1000 2000 (empty_cache, 0))) =
     empty_cache \<and>
   \<not> \<bar>2000 + effective_ttl empty_cache (Some 10000000000000) * 1000\<bar> \<le> (8640000000000000::int) \<and>
   fst (getOrSet ''k'' counting_fetch (Some 10000000000000) (Some ''svc'') 1000 2000
     (empty_cache, 0)) = Inr (Some ''value'') \<and>
   fst (snd (getOrSet ''k'' counting_fetch (Some 10000000000000) (Some ''svc'') 1000 2000
     (empty_cache, 0))) = empty_cache"
proof -
  have miss: "fst (cache_get ''k'' 1000 empty_cache) = None"
    by (simp add: cache_get_def empty_cache_def)
  have same: "snd (cache_get ''k'' 1000 empty_cache) = empty_cache"
    by (simp add: cache_get_def empty_cache_def)
  have reach: "reachable empty_cache"
    by (simp add: empty_cache_def)
  have eff: "effective_ttl empty_cache (Some 600) = 600"
    "effective_ttl empty_cache (Some 10000000000000) = 10000000000000"
    by (simp_all add: effective_ttl_def)
  show ?thesis
    using getOrSet_miss [OF miss, of counting_fetch "Some 600" "Some ''svc''" 2000 0]
      getOrSet_miss [OF miss, of failing_fetch "Some 600" "Some ''svc''" 2000 0]
      getOrSet_miss [OF miss, of counting_fetch "Some 10000000000000" "Some ''svc''" 2000 0]
      miss same reach eff
    by (simp add: counting_fetch_def failing_fetch_def empty_cache_def)
qed

text \<open>
  Claim C6, as the specification states it, fails at \<open>ttl = 0\<close>: a value stored at time
  5000 expires at 5000 plus the default TTL of 3600 seconds, not at 5000 plus 0.
\<close>

theorem getOrSet_expiry_counterexample:
  "map_option expires_at
     (rows (fst (snd (getOrSet ''k'' counting_fetch (Some 0) None 0 5000 (empty_cache, 0)))) ''k'')
   = Some 3605000 \<and>
   map_option expires_at
     (rows (fst (snd (getOrSet ''k'' counting_fetch (Some 0) None 0 5000 (empty_cache, 0)))) ''k'')
   \<noteq> Some (5000 + 0 * 1000)"
  by (simp add: getOrSet_def cache_get_def cache_set_def cache_delete_def effective_ttl_def
      newDate_def empty_cache_def counting_fetch_def)


section \<open>Sorting with a comparator: order, content, stability\<close>

lemma length_filter_insert_by:
  "length (filter P (insert_by cmp x ys)) = length (filter P (x # ys))"
  by (induction ys) auto

lemma length_filter_array_sort:
  "length (filter P (array_sort cmp xs)) = length (filter P xs)"
  by (induction xs) (simp_all add: array_sort_def length_filter_insert_by)

lemma set_insert_by: "set (insert_by cmp x ys) = insert x (set ys)"
  by (induction ys) auto

lemma set_array_sort: "set (array_sort cmp xs) = set xs"
  by (induction xs) (simp_all add: array_sort_def set_insert_by)

lemma sorted_insert_by:
  assumes total: "\<And>a b. a \<in> A \<Longrightarrow> b \<in> A \<Longrightarrow> cmp a b \<le> 0 \<or> cmp b a \<le> 0"
    and trans: "\<And>a b c. a \<in> A \<Longrightarrow> b \<in> A \<Longrightarrow> c \<in> A \<Longrightarrow>
                  cmp a b \<le> 0 \<Longrightarrow> cmp b c \<le> 0 \<Longrightarrow> cmp a c \<le> 0"
    and "x \<in> A" and "set ys \<subseteq> A"
    and "sorted_wrt (\<lambda>a b. cmp a b \<le> 0) ys"
  shows "sorted_wrt (\<lambda>a b. cmp a b \<le> 0) (insert_by cmp x ys)"
  using assms(3-)
proof (induction ys)
  case Nil
  then show ?case by simp
next
  case (Cons y ys)
  show ?case
  proof (cases "cmp x y \<le> 0")
    case True
    have "cmp x z \<le> 0" if "z \<in> set ys" for z
    proof -
      from Cons.prems that have "cmp y z \<le> 0" by simp
      with True show ?thesis
        using trans [of x y z] Cons.prems that by auto
    qed
    with True Cons.prems show ?thesis by simp
  next
    case False
    with total [of x y] Cons.prems have yx: "cmp y x \<le> 0" by auto
    from Cons have "sorted_wrt (\<lambda>a b. cmp a b \<le> 0) (insert_by cmp x ys)" by simp
    with False yx Cons.prems show ?thesis by (auto simp add: set_insert_by)
  qed
qed

lemma sorted_array_sort:
  assumes total: "\<And>a b. a \<in> A \<Longrightarrow> b \<in> A \<Longrightarrow> cmp a b \<le> 0 \<or> cmp b a \<le> 0"
    and trans: "\<And>a b c. a \<in> A \<Longrightarrow> b \<in> A \<Longrightarrow> c \<in> A \<Longrightarrow>
                  cmp a b \<le> 0 \<Longrightarrow> cmp b c \<le> 0 \<Longrightarrow> cmp a c \<le> 0"
    and "set xs \<subseteq> A"
  shows "sorted_wrt (\<lambda>a b. cmp a b \<le> 0) (array_sort cmp xs)"
  using assms(3)
proof (induction xs)
  case Nil
  then show ?case by (simp add: array_sort_def)
next
  case (Cons x xs)
  then have "sorted_wrt (\<lambda>a b. cmp a b \<le> 0) (array_sort cmp xs)" by simp
  moreover have "set (array_sort cmp xs) \<subseteq> A" using Cons.prems by (simp add: set_array_sort)
  moreover have "x \<in> A" using Cons.prems by simp
  ultimately have "sorted_wrt (\<lambda>a b. cmp a b \<le> 0) (insert_by cmp x (array_sort cmp xs))"
    using total trans by (intro sorted_insert_by [where A = A]) blast+
  then show ?case by (simp add: array_sort_def)
qed

lemma filter_insert_by_stable:
  assumes "P x \<Longrightarrow> \<forall>y\<in>set ys. P y \<longrightarrow> cmp x y \<le> 0"
  shows "filter P (insert_by cmp x ys) = filter P (x # ys)"
  using assms by (induction ys) auto

lemma filter_array_sort_stable:
  assumes "\<And>x y. P x \<Longrightarrow> P y \<Longrightarrow> cmp x y \<le> 0"
  shows "filter P (array_sort cmp xs) = filter P xs"
proof (induction xs)
  case Nil
  show ?case by (simp add: array_sort_def)
next
  case (Cons x xs)
  have "filter P (insert_by cmp x (array_sort cmp xs)) = filter P (x # array_sort cmp xs)"
    by (rule filter_insert_by_stable) (simp add: assms)
  with Cons show ?case by (simp add: array_sort_def)
qed

lemma sorted_wrt_take: "sorted_wrt R xs \<Longrightarrow> sorted_wrt R (take n xs)"
proof (induction xs arbitrary: n)
  case Nil
  then show ?case by simp
next
  case (Cons x xs)
  show ?case
  proof (cases n)
    case 0
    then show ?thesis by simp
  next
    case (Suc m)
    with Cons show ?thesis by (auto dest: in_set_takeD)
  qed
qed

lemma sorted_wrt_slice_to: "sorted_wrt R xs \<Longrightarrow> sorted_wrt R (slice_to n xs)"
  by (simp add: slice_to_def sorted_wrt_take)

lemma rank_sorted:
  "sorted_wrt (\<lambda>a b. update_score b \<le> update_score a) (rankUpdatesByRelevance now updates disaster)"
proof -
  let ?scored = "map (with_score now disaster) updates"
  define A where "A = set ?scored"
  have le: "compare_updates a b \<le> 0 \<longleftrightarrow> update_score b \<le> update_score a"
    if "a \<in> A" "b \<in> A" for a b
    using that by (auto simp add: A_def compare_updates_def update_score_def with_score_def)
  have "sorted_wrt (\<lambda>a b. compare_updates a b \<le> 0) (array_sort compare_updates ?scored)"
  proof (rule sorted_array_sort [where A = A])
    show "compare_updates a b \<le> 0 \<or> compare_updates b a \<le> 0" if "a \<in> A" "b \<in> A" for a b
      using that le by (meson linear)
    show "compare_updates a c \<le> 0"
      if "a \<in> A" "b \<in> A" "c \<in> A" "compare_updates a b \<le> 0" "compare_updates b c \<le> 0" for a b c
      using that le by (meson order_trans)
    show "set ?scored \<subseteq> A" by (simp add: A_def)
  qed
  moreover have "set (array_sort compare_updates ?scored) = A"
    by (simp add: set_array_sort A_def)
  ultimately have "sorted_wrt (\<lambda>a b. update_score b \<le> update_score a)
      (array_sort compare_updates ?scored)"
    using le by (auto intro: sorted_wrt_mono_rel [rotated])
  then show ?thesis
    by (simp add: rankUpdatesByRelevance_def with_score_def [abs_def])
qed


lemma rank_alt:
  "rankUpdatesByRelevance now updates disaster =
     array_sort compare_updates (map (with_score now disaster) updates)"
  by (simp add: rankUpdatesByRelevance_def with_score_def [abs_def])

lemma rank_stable:
  "filter (\<lambda>u. relevanceScore u = Some s) (rankUpdatesByRelevance now updates disaster) =
   filter (\<lambda>u. relevanceScore u = Some s) (map (with_score now disaster) updates)"
  unfolding rank_alt
  by (rule filter_array_sort_stable) (simp add: compare_updates_def)

lemma rank_url_count:
  "length (filter (\<lambda>u. url u = k) (rankUpdatesByRelevance now updates disaster)) =
   length (filter (\<lambda>u. url u = k) updates)"
proof -
  have "length (filter (\<lambda>u. url u = k) (map (with_score now disaster) updates)) =
        length (filter (\<lambda>u. url u = k) updates)"
    by (induction updates) (simp_all add: with_score_def)
  then show ?thesis
    by (simp add: rank_alt length_filter_array_sort)
qed

lemma fetchUpdates_try_Inr:
  "\<exists>updates. fetchUpdates_try adapter now disaster sources maxResults timeWindow = Inr updates"
  by (simp add: fetchUpdates_try_def Let_def)

lemma fetchUpdates_compute_eq:
  "fetchUpdates_compute adapter now random_age disaster sources maxResults timeWindow =
     slice_to maxResults
       (rankUpdatesByRelevance now
          (filterRelevantUpdates (collectUpdates adapter sources timeWindow) disaster)
          disaster)"
  by (simp add: fetchUpdates_compute_def fetchUpdates_try_def Let_def)

lemma fetchUpdates_sorted:
  "sorted_wrt (\<lambda>a b. update_score b \<le> update_score a)
     (fetchUpdates_compute adapter now random_age disaster sources maxResults timeWindow)"
  unfolding fetchUpdates_compute_eq by (intro sorted_wrt_slice_to rank_sorted)

lemma processPost_isUrgent:
  "post_isUrgent (processPost p disaster) = Some True \<or>
   post_isUrgent (processPost p disaster) = Some False"
  by (simp add: processPost_def)

lemma compare_posts_le:
  assumes "post_isUrgent a = Some True \<or> post_isUrgent a = Some False"
    and "post_isUrgent b = Some True \<or> post_isUrgent b = Some False"
  shows "compare_posts a b \<le> 0 \<longleftrightarrow> posts_in_order a b"
  using assms by (auto simp add: compare_posts_def posts_in_order_def bool_num_def)

lemma processed_sorted:
  "sorted_wrt posts_in_order
     (array_sort compare_posts (map (\<lambda>post. processPost post disaster) posts))"
proof -
  let ?processed = "map (\<lambda>post. processPost post disaster) posts"
  define A where "A = set ?processed"
  have flag: "post_isUrgent a = Some True \<or> post_isUrgent a = Some False" if "a \<in> A" for a
    using that processPost_isUrgent by (auto simp add: A_def)
  have le: "compare_posts a b \<le> 0 \<longleftrightarrow> posts_in_order a b" if "a \<in> A" "b \<in> A" for a b
    using that flag by (intro compare_posts_le) auto
  have "sorted_wrt (\<lambda>a b. compare_posts a b \<le> 0) (array_sort compare_posts ?processed)"
  proof (rule sorted_array_sort [where A = A])
    show "compare_posts a b \<le> 0 \<or> compare_posts b a \<le> 0" if "a \<in> A" "b \<in> A" for a b
      using flag [OF that(1)] flag [OF that(2)]
      by (auto simp add: compare_posts_def bool_num_def)
    show "compare_posts a c \<le> 0"
      if "a \<in> A" "b \<in> A" "c \<in> A" "compare_posts a b \<le> 0" "compare_posts b c \<le> 0" for a b c
      using flag [OF that(1)] flag [OF that(2)] flag [OF that(3)] that(4,5)
      by (auto simp add: compare_posts_def bool_num_def split: if_splits)
    show "set ?processed \<subseteq> A" by (simp add: A_def)
  qed
  moreover have "set (array_sort compare_posts ?processed) = A"
    by (simp add: set_array_sort A_def)
  ultimately show ?thesis
    using le by (auto intro: sorted_wrt_mono_rel [rotated])
qed

lemma fetchReports_sorted:
  assumes "fetchReports_try env provider disaster maxResults = Inr ps"
  shows "sorted_wrt posts_in_order ps"
proof -
  from assms obtain posts where
    "ps = slice_to maxResults
       (array_sort compare_posts (map (\<lambda>post. processPost post disaster) posts))"
    by (auto simp add: fetchReports_try_def Let_def split: sum.splits)
  then show ?thesis by (simp add: sorted_wrt_slice_to processed_sorted)
qed

lemma posts_stable:
  "filter (\<lambda>p. post_isUrgent p = u \<and> post_createdAt p = t) (array_sort compare_posts posts) =
   filter (\<lambda>p. post_isUrgent p = u \<and> post_createdAt p = t) posts"
  by (rule filter_array_sort_stable) (simp add: compare_posts_def)


section \<open>The official-updates pipeline\<close>

lemmas eval_updates = fetchUpdates_compute_def fetchUpdates_try_def collectUpdates_def
  fetchFromSource_def sources_registry_def ex_adapter_def ex_update_def ex_disaster_def
  filterRelevantUpdates_def disasterKeywords_def rankUpdatesByRelevance_def
  array_sort_def compare_updates_def update_relevance_def update_tag_bonus_def
  update_location_bonus_def update_priority_bonus_def update_recency_bonus_def
  classifyUpdateType_def calculatePriority_def slice_to_def

lemmas eval_posts = fetchReports_compute_def fetchReports_try_def ex_providers_def
  ex_post_def ex_disaster_def processPost_def detectUrgency_def urgentKeywords_def
  regex_test_ci_def array_sort_def compare_posts_def bool_num_def calculateRelevance_def
  post_tag_bonus_def post_location_bonus_def post_urgency_bonus_def
  post_engagement_bonus_def post_verified_bonus_def or_zero_def classifyPost_def
  slice_to_def

lemma length_rank: "length (rankUpdatesByRelevance now updates disaster) = length updates"
  using length_filter_array_sort [of "\<lambda>u. True" compare_updates
      "map (with_score now disaster) updates"]
  by (simp add: rank_alt)

lemma slice_to_all: "int (length xs) \<le> n \<Longrightarrow> slice_to n xs = xs"
  by (simp add: slice_to_def)

lemma fetchUpdates_miss:
  assumes "fst (cache_get (fetchUpdates_key disasterId sources) t_get c) = None"
  shows "fst (fetchUpdates adapter random_age disasterId disaster sources maxResults timeWindow
                t_get now t_set (c, ())) =
         Inr (Some (fetchUpdates_compute adapter now random_age disaster sources maxResults
                      timeWindow))"
  using assms
  by (simp add: fetchUpdates_def fetchUpdates_key_def [symmetric] Let_def getOrSet_miss_eq)

lemma fetchUpdates_hit:
  assumes "fst (cache_get (fetchUpdates_key disasterId sources) t_get c) = Some cached"
  shows "fst (fetchUpdates adapter random_age disasterId disaster sources maxResults timeWindow
                t_get now t_set (c, ())) = Inr (Some cached)"
  using assms
  by (cases "cache_get (fetchUpdates_key disasterId sources) t_get c")
     (simp add: fetchUpdates_def fetchUpdates_key_def [symmetric] Let_def getOrSet_def)

lemma getOrSet_reachable:
  "reachable (fst (snd (getOrSet key fetchFunction ttl src t1 t2 (c, w)))) = reachable c"
proof (cases "cache_get key t1 c")
  case (Pair cached c')
  then have "reachable c' = reachable c"
    using cache_get_reachable [of key t1 c] by simp
  with Pair show ?thesis
    by (simp add: getOrSet_def split: option.splits prod.splits sum.splits)
qed

lemma fetchUpdates_reachable:
  "reachable (fst (snd (fetchUpdates adapter random_age disasterId disaster sources maxResults
     timeWindow t_get now t_set (c, ())))) = reachable c"
  by (simp add: fetchUpdates_def Let_def getOrSet_reachable)

lemma fetchUpdates_miss_rows:
  assumes "fst (cache_get (fetchUpdates_key disasterId sources) t_get c) = None"
    and "reachable c" and "\<bar>t_set + 1800 * 1000\<bar> \<le> 8640000000000000"
  shows "rows (fst (snd (fetchUpdates adapter random_age disasterId disaster sources maxResults
                           timeWindow t_get now t_set (c, ()))))
           (fetchUpdates_key disasterId sources) =
         Some \<lparr>row_value = json_roundtrip c
                 (fetchUpdates_compute adapter now random_age disaster sources maxResults
                    timeWindow),
               expires_at = t_set + 1800 * 1000, row_source = Some ''official_updates'',
               hit_count = 0\<rparr>"
proof -
  have eff: "effective_ttl c' (Some 1800) = 1800" for c' :: "update list cache"
    by (simp add: effective_ttl_def)
  show ?thesis
    using assms rows_cache_set [of "snd (cache_get (fetchUpdates_key disasterId sources) t_get c)"
        t_set "Some 1800" "fetchUpdates_key disasterId sources"]
    by (simp add: fetchUpdates_def fetchUpdates_key_def [symmetric] Let_def getOrSet_miss_eq eff)
qed




lemma collectUpdates_all_fail:
  assumes "\<forall>sourceKey\<in>set sources. \<exists>e. fetchFromSource adapter sourceKey timeWindow = Inl e"
  shows "collectUpdates adapter sources timeWindow = []"
  using assms by (induction sources) (auto simp add: collectUpdates_def)

lemma fetchUpdates_all_fail:
  assumes "\<forall>sourceKey\<in>set sources. \<exists>e. fetchFromSource adapter sourceKey timeWindow = Inl e"
  shows "fetchUpdates_compute adapter now random_age disaster sources maxResults timeWindow = []"
  by (simp add: fetchUpdates_compute_eq collectUpdates_all_fail [OF assms]
      filterRelevantUpdates_def rankUpdatesByRelevance_def array_sort_def slice_to_def)

lemma replace_first_examples:
  "replace_first ''${tag}'' ''flood'' ''After ${tag}: ${tag}'' = ''After flood: ${tag}''"
  "replace_first ''${tag}'' ''a$&b$$c'' ''x ${tag} y'' = ''x a${tag}b$c y''"
  "replace_first ''${tag}'' ''flood'' ''no pattern'' = ''no pattern''"
  by (simp_all add: replace_first_def)

lemma length_generateMockUpdates: "length (generateMockUpdates now random_age disaster) = 3"
  by (simp add: generateMockUpdates_def mockTemplates_def Let_def enumerate_eq_zip)

lemma generateMockUpdates_marker:
  "map url (generateMockUpdates now random_age disaster) =
     [Some ''https://example.com/update/0'', Some ''https://example.com/update/1'',
      Some ''https://example.com/update/2'']"
  by (simp add: generateMockUpdates_def mockTemplates_def Let_def enumerate_eq_zip
      decimal.simps digit36_def char_of_def bit_Suc_0_iff upt_rec [of 0]  upt_rec [of 1]
      upt_rec [of 2])

lemma cache_get_no_rows: "fst (cache_get key t (c\<lparr>rows := Map.empty\<rparr>)) = None"
  by (simp add: cache_get_def)

text \<open>
  Claim C2. The specification promises the mock updates when every selected source
  fails. In the code the failure of a source ends in the \<open>catch\<close> of that source, which
  returns the empty list, and the \<open>catch\<close> with the mock updates is never reached: with
  the one source \<open>mock\<close>, which the registry does not hold (the source list of the
  service's own health check), the result is the empty list, whatever the adapters do,
  and on a cache without rows that empty list is what \<open>fetchUpdates\<close> returns.
\<close>

theorem fetchUpdates_mock_source_empty:
  "fetchUpdates_compute adapter now random_age disaster [''mock''] maxResults timeWindow = [] \<and>
   fst (fetchUpdates adapter random_age disasterId disaster [''mock''] maxResults timeWindow
          t_get now t_set (c\<lparr>rows := Map.empty\<rparr>, ())) = Inr (Some [])"
proof -
  have empty: "fetchUpdates_compute adapter now random_age disaster [''mock''] maxResults
      timeWindow = []"
    by (simp add: fetchUpdates_compute_eq collectUpdates_def fetchFromSource_def
        sources_registry_def filterRelevantUpdates_def rankUpdatesByRelevance_def
        array_sort_def slice_to_def)
  then show ?thesis
    by (simp add: fetchUpdates_def Let_def getOrSet_miss_eq [OF cache_get_no_rows])
qed


section \<open>Order of the returned lists\<close>

text \<open>
  Claim C4, as the specification states it, fails in both pipelines. Two updates with the
  same score stay in the order they were fetched in, the older one first; and posts are
  ordered by urgency and date, so that a post with score 0.5 precedes one with score
  0.9.
\<close>

theorem ranking_counterexample:
  "map publishedAt
     (fetchUpdates_compute
        (ex_adapter [ex_update ''https://www.fema.gov/a'' 324000000,
                     ex_update ''https://www.fema.gov/b'' 356400000])
        360000000 ex_random_age ex_disaster [''fema''] 20 (Some 72)) =
     [Some 324000000, Some 356400000] \<and>
   map relevanceScore
     (fetchUpdates_compute
        (ex_adapter [ex_update ''https://www.fema.gov/a'' 324000000,
                     ex_update ''https://www.fema.gov/b'' 356400000])
        360000000 ex_random_age ex_disaster [''fema''] 20 (Some 72)) =
     [Some 1.3, Some 1.3] \<and>
   map post_relevanceScore
     (fetchReports_compute (ex_providers [ex_post ''flood in Test City'' 2000, ex_post ''SOS'' 1000])
        ''twitter'' ex_disaster 50) =
     [Some 0.5, Some 0.9]"
  by (simp add: eval_updates eval_posts eval_strings Let_def)

text \<open>
  Claim C4, amended. The list of official updates is in descending order of relevance
  score, and updates with the same score keep the order they were collected in, whatever
  their dates. The list of posts of a fetch that succeeded has the urgent posts first
  and, among posts of the same urgency, the more recent first; posts with the same
  urgency and date keep their order; the relevance score plays no part.
\<close>

theorem ranking_order:
  "sorted_wrt (\<lambda>a b. update_score b \<le> update_score a)
     (fetchUpdates_compute adapter now random_age disaster sources maxResults timeWindow) \<and>
   filter (\<lambda>u. relevanceScore u = Some s) (rankUpdatesByRelevance now updates disaster) =
     filter (\<lambda>u. relevanceScore u = Some s) (map (with_score now disaster) updates) \<and>
   (\<forall>ps. fetchReports_try env provider disaster maxResults = Inr ps \<longrightarrow>
      sorted_wrt posts_in_order ps) \<and>
   filter (\<lambda>p. post_isUrgent p = flag \<and> post_createdAt p = t) (array_sort compare_posts posts) =
     filter (\<lambda>p. post_isUrgent p = flag \<and> post_createdAt p = t) posts"
  using fetchUpdates_sorted rank_stable fetchReports_sorted posts_stable by blast

theorem ranking_order_witness:
  "fetchReports_try (ex_providers [ex_post ''flood in Test City'' 2000, ex_post ''SOS'' 1000])
     ''twitter'' ex_disaster 50 =
     Inr [processPost (ex_post ''SOS'' 1000) ex_disaster,
          processPost (ex_post ''flood in Test City'' 2000) ex_disaster] \<and>
   sorted_wrt posts_in_order
     [processPost (ex_post ''SOS'' 1000) ex_disaster,
      processPost (ex_post ''flood in Test City'' 2000) ex_disaster]"
proof -
  have h: "fetchReports_try
      (ex_providers [ex_post ''flood in Test City'' 2000, ex_post ''SOS'' 1000])
      ''twitter'' ex_disaster 50 =
     Inr [processPost (ex_post ''SOS'' 1000) ex_disaster,
          processPost (ex_post ''flood in Test City'' 2000) ex_disaster]"
    by (simp add: eval_posts eval_strings Let_def)
  from ranking_order [where env = "ex_providers [ex_post ''flood in Test City'' 2000, ex_post ''SOS'' 1000]"
      and provider = "''twitter''" and disaster = ex_disaster and maxResults = 50] h
  show ?thesis by blast
qed


section \<open>Monotonicity of the scores\<close>

lemma fold_bonus_none:
  "\<forall>x\<in>set xs. \<not> P x \<Longrightarrow> fold (\<lambda>x sc. if P x then sc + b else sc) xs s = (s::real)"
  by (induction xs arbitrary: s) auto

lemma fold_bonus_some:
  assumes "0 \<le> (b::real)" and "\<exists>x\<in>set xs. P x"
  shows "s + b \<le> fold (\<lambda>x sc. if P x then sc + b else sc) xs s"
  using assms(2)
proof (induction xs arbitrary: s)
  case Nil
  then show ?case by simp
next
  case (Cons x xs)
  show ?case
  proof (cases "P x")
    case True
    have "s + b \<le> fold (\<lambda>x sc. if P x then sc + b else sc) xs (s + b)"
      by (rule fold_bonus_ge) (rule assms(1))
    with True show ?thesis by simp
  next
    case False
    with Cons.prems have "\<exists>x\<in>set xs. P x" by simp
    from Cons.IH [OF this] False show ?thesis by simp
  qed
qed

lemma update_relevance_sum:
  "update_relevance now u disaster =
     update_tag_bonus (toLowerCase (title u @ '' '' @ content u)) disaster 0 +
     update_location_bonus (toLowerCase (title u @ '' '' @ content u)) disaster 0 +
     update_priority_bonus u 0 + update_recency_bonus now u 0"
  by (simp add: update_relevance_def update_location_bonus_def update_priority_bonus_def
      update_recency_bonus_def Let_def split: option.splits)

text \<open>
  Scoring of updates is monotone in the tags: of two updates with the same priority, date
  and location match, the one whose text holds a tag of the disaster scores higher, by
  0.3 at least, than the one whose text holds none.
\<close>

lemma update_relevance_tag_monotone:
  assumes "tags disaster = Some ts"
    and "\<exists>tag\<in>set ts. str_includes (toLowerCase (title u1 @ '' '' @ content u1)) (toLowerCase tag)"
    and "\<forall>tag\<in>set ts. \<not> str_includes (toLowerCase (title u2 @ '' '' @ content u2)) (toLowerCase tag)"
    and "priorityLevel u1 = priorityLevel u2"
    and "publishedAt u1 = publishedAt u2"
    and "update_location_bonus (toLowerCase (title u1 @ '' '' @ content u1)) disaster 0 =
         update_location_bonus (toLowerCase (title u2 @ '' '' @ content u2)) disaster 0"
  shows "update_relevance now u2 disaster + 0.3 \<le> update_relevance now u1 disaster"
proof -
  have "0 + 0.3 \<le> update_tag_bonus (toLowerCase (title u1 @ '' '' @ content u1)) disaster 0"
    unfolding update_tag_bonus_def assms(1) option.case
    by (rule fold_bonus_some) (use assms(2) in auto)
  moreover have "update_tag_bonus (toLowerCase (title u2 @ '' '' @ content u2)) disaster 0 = 0"
    unfolding update_tag_bonus_def assms(1) option.case
    by (rule fold_bonus_none) (use assms(3) in auto)
  moreover have "update_priority_bonus u1 0 = update_priority_bonus u2 0"
    using assms(4) by (simp add: update_priority_bonus_def)
  moreover have "update_recency_bonus now u1 0 = update_recency_bonus now u2 0"
    using assms(5) by (simp add: update_recency_bonus_def)
  ultimately show ?thesis
    using assms(6) by (simp add: update_relevance_sum)
qed

text \<open>
  \<open>calculateRelevance\<close>, taken alone, is monotone in the flag: a post that carries
  \<open>isUrgent\<close> scores 0.3 more, capped at 1.0, than the same post without it.
\<close>

lemma calculateRelevance_urgent:
  "calculateRelevance (post\<lparr>post_isUrgent := Some True\<rparr>) disaster =
     min 1.0 (post_verified_bonus post (post_engagement_bonus post
        (post_location_bonus post disaster (post_tag_bonus post disaster 0.5))) + 0.3) \<and>
   calculateRelevance (post\<lparr>post_isUrgent := Some False\<rparr>) disaster =
     min 1.0 (post_verified_bonus post (post_engagement_bonus post
        (post_location_bonus post disaster (post_tag_bonus post disaster 0.5))))"
  by (simp add: calculateRelevance_def post_verified_bonus_def post_engagement_bonus_def
      post_urgency_bonus_def post_location_bonus_def post_tag_bonus_def Let_def min.commute
      split: option.splits)

text \<open>
  Claim C9. In the pipeline the flag never reaches the score: \<open>processPost\<close> sets
  \<open>isUrgent\<close> on its copy of the post and scores the post it was given, which has no
  such field. A post with urgent content is flagged and scores 0.5, as a post with the
  same signals and no urgent content does, where the claim has it 0.3 higher.
\<close>

theorem urgency_not_scored:
  "post_isUrgent (processPost (ex_post ''URGENT: family trapped'' 0) ex_disaster) = Some True \<and>
   post_relevanceScore (processPost (ex_post ''URGENT: family trapped'' 0) ex_disaster) =
     Some 0.5 \<and>
   post_isUrgent (processPost (ex_post ''family is safe'' 0) ex_disaster) = Some False \<and>
   post_relevanceScore (processPost (ex_post ''family is safe'' 0) ex_disaster) = Some 0.5"
  by (simp add: eval_posts eval_strings Let_def)

end
